theory Spec2Isabelle
  imports
    Complex_Main
    "HOL-Library.Char_ord"
    "HOL-Library.List_Lexorder"
    "HOL-Library.AList"
begin

section \<open>Python values used by the alert pipeline\<close>

text \<open>
  Strings are byte strings. \<open>str.lower\<close> and \<open>str.upper\<close> are modelled on the ASCII
  letters, \<open>str.strip\<close> on the ASCII white space and \<open>str.isdigit\<close> on the ASCII
  digits; every other byte is left as it is. A \<open>dict\<close> is an association list (insertion
  order, keys distinct), read with \<open>dict_get\<close> (\<open>d.get(k, default)\<close>) or
  \<open>dict_index\<close> (\<open>d[k]\<close>, which raises \<open>KeyError\<close> on a missing key). An exception
  is its class name, its message (what \<open>str\<close> gives for it) and its cause (\<open>raise ... from\<close>).
\<close>

datatype py_exception =
  Exc (exc_type: string) (exc_msg: string) (exc_cause: "py_exception option")

type_synonym 'v dict = "(string \<times> 'v) list"

definition dict_get :: "'v dict \<Rightarrow> string \<Rightarrow> 'v \<Rightarrow> 'v" where
  "dict_get d k dflt = (case map_of d k of None \<Rightarrow> dflt | Some v \<Rightarrow> v)"

definition dict_index :: "'v dict \<Rightarrow> string \<Rightarrow> py_exception + 'v" where
  "dict_index d k =
     (case map_of d k of None \<Rightarrow> Inl (Exc ''KeyError'' k None) | Some v \<Rightarrow> Inr v)"

definition lower_char :: "char \<Rightarrow> char" where
  "lower_char c =
     (let n = (of_char c :: nat) in if 65 \<le> n \<and> n \<le> 90 then char_of (n + 32) else c)"

definition upper_char :: "char \<Rightarrow> char" where
  "upper_char c =
     (let n = (of_char c :: nat) in if 97 \<le> n \<and> n \<le> 122 then char_of (n - 32) else c)"

definition lower :: "string \<Rightarrow> string" where
  "lower s = map lower_char s"

definition upper :: "string \<Rightarrow> string" where
  "upper s = map upper_char s"

definition startswith :: "string \<Rightarrow> string \<Rightarrow> bool" where
  "startswith s p = (take (length p) s = p)"

definition endswith :: "string \<Rightarrow> string \<Rightarrow> bool" where
  "endswith s p = (length p \<le> length s \<and> drop (length s - length p) s = p)"

text \<open>\<open>contains s x\<close> is Python's \<open>x in s\<close> on strings.\<close>

fun contains :: "string \<Rightarrow> string \<Rightarrow> bool" where
  "contains [] x = (x = [])"
| "contains (c # cs) x = (startswith (c # cs) x \<or> contains cs x)"

definition is_space :: "char \<Rightarrow> bool" where
  "is_space c = (let n = (of_char c :: nat) in (9 \<le> n \<and> n \<le> 13) \<or> (28 \<le> n \<and> n \<le> 32))"

definition is_digit :: "char \<Rightarrow> bool" where
  "is_digit c = (let n = (of_char c :: nat) in 48 \<le> n \<and> n \<le> 57)"

definition strip :: "string \<Rightarrow> string" where
  "strip s = rev (dropWhile is_space (rev (dropWhile is_space s)))"

definition lstrip_chars :: "string \<Rightarrow> string \<Rightarrow> string" where
  "lstrip_chars s cs = dropWhile (\<lambda>c. c \<in> set cs) s"

text \<open>\<open>split_char sep s\<close> is \<open>s.split(sep)\<close> for a one-character separator.\<close>

fun split_char :: "char \<Rightarrow> string \<Rightarrow> string list" where
  "split_char sep [] = [[]]"
| "split_char sep (c # cs) =
     (if c = sep then [] # split_char sep cs
      else (case split_char sep cs of
              [] \<Rightarrow> [[c]]
            | l # ls \<Rightarrow> (c # l) # ls))"

fun join :: "string \<Rightarrow> string list \<Rightarrow> string" where
  "join sep [] = []"
| "join sep [x] = x"
| "join sep (x # y # ys) = x @ sep @ join sep (y # ys)"

text \<open>\<open>xs[:n]\<close> for an integer \<open>n\<close>: a negative \<open>n\<close> counts from the end.\<close>

definition slice_to :: "'a list \<Rightarrow> int \<Rightarrow> 'a list" where
  "slice_to xs n = (if 0 \<le> n then take (nat n) xs else take (length xs - nat (- n)) xs)"

text \<open>\<open>str_nat n\<close> is \<open>str(n)\<close> for a natural number, \<open>zero_pad w n\<close> is \<open>n\<close> printed in at
  least \<open>w\<close> digits.\<close>

definition digit_char :: "nat \<Rightarrow> char" where
  "digit_char n = ''0123456789'' ! (n mod 10)"

function str_nat :: "nat \<Rightarrow> string" where
  "str_nat n = (if n < 10 then [digit_char n] else str_nat (n div 10) @ [digit_char n])"
  by pat_completeness auto
termination
  by (relation "measure (\<lambda>n. n)") auto

declare str_nat.simps [simp del]

definition zero_pad :: "nat \<Rightarrow> nat \<Rightarrow> string" where
  "zero_pad w n = replicate (w - length (str_nat n)) CHR ''0'' @ str_nat n"

record datetime =
  year :: nat
  month :: nat
  day :: nat
  hour :: nat
  minute :: nat
  second :: nat
  microsecond :: nat

text \<open>\<open>strftime('%Y%m%d%H%M%S')\<close>, for the years from 1000 on.\<close>

definition strftime_compact :: "datetime \<Rightarrow> string" where
  "strftime_compact t =
     zero_pad 4 (year t) @ zero_pad 2 (month t) @ zero_pad 2 (day t) @
     zero_pad 2 (hour t) @ zero_pad 2 (minute t) @ zero_pad 2 (second t)"


text \<open>
  A value of type \<open>Any\<close> that arrived as JSON: the label and annotation values of an
  alert are declared \<open>Dict[str, Any]\<close>, so each of them can be any JSON value. The
  answers of the webhook are JSON values as well.
\<close>

datatype json =
    JNull
  | JBool bool
  | JInt int
  | JFloat real
  | is_JString: JString string
  | JArray "json list"
  | JObject "(string \<times> json) list"

fun type_name :: "json \<Rightarrow> string" where
  "type_name JNull = ''NoneType''"
| "type_name (JBool b) = ''bool''"
| "type_name (JInt i) = ''int''"
| "type_name (JFloat x) = ''float''"
| "type_name (JString s) = ''str''"
| "type_name (JArray xs) = ''list''"
| "type_name (JObject fs) = ''dict''"

text \<open>
  \<open>v.lower()\<close> and \<open>v.upper()\<close> on such a value: only a string has these methods, every
  other value raises \<open>AttributeError\<close>.
\<close>

definition attribute_error :: "json \<Rightarrow> string \<Rightarrow> py_exception" where
  "attribute_error v attr =
     Exc ''AttributeError''
       ([CHR 0x27] @ type_name v @ [CHR 0x27] @ '' object has no attribute '' @
        [CHR 0x27] @ attr @ [CHR 0x27])
       None"

definition py_lower :: "json \<Rightarrow> py_exception + string" where
  "py_lower v = (case v of JString s \<Rightarrow> Inr (lower s) | _ \<Rightarrow> Inl (attribute_error v ''lower''))"

definition py_upper :: "json \<Rightarrow> py_exception + string" where
  "py_upper v = (case v of JString s \<Rightarrow> Inr (upper s) | _ \<Rightarrow> Inl (attribute_error v ''upper''))"

text \<open>
  \<open>except Exception\<close> catches the exceptions whose class derives from \<open>Exception\<close>. The
  built-in classes that derive from \<open>BaseException\<close> only are not caught; among them is
  \<open>asyncio.CancelledError\<close>, which an \<open>await\<close> raises when its task is cancelled.
\<close>

definition is_Exception :: "py_exception \<Rightarrow> bool" where
  "is_Exception e =
     (exc_type e \<notin> set [''CancelledError'', ''KeyboardInterrupt'', ''SystemExit'', ''GeneratorExit''])"

text \<open>
  What the installed libraries decide. \<open>py_str v\<close> is \<open>str(v)\<close> for a value that is not
  a string. A \<open>str\<close> field of a pydantic model takes a string as it is; it takes a number
  or a boolean as \<open>str\<close> prints it when \<open>coerces_numbers\<close> holds (pydantic 1) and
  refuses it otherwise (pydantic 2); it refuses \<open>None\<close>, a list and a dictionary under
  both. \<open>validation_message\<close> is the text of the \<open>ValidationError\<close> for the refused
  fields.
\<close>

record runtime =
  py_str :: "json \<Rightarrow> string"
  coerces_numbers :: bool
  validation_message :: "string list \<Rightarrow> string"

text \<open>A value inside an f-string.\<close>

definition format_value :: "runtime \<Rightarrow> json \<Rightarrow> string" where
  "format_value rt v = (case v of JString s \<Rightarrow> s | _ \<Rightarrow> py_str rt v)"

definition str_field :: "runtime \<Rightarrow> json \<Rightarrow> string option" where
  "str_field rt v =
     (case v of
        JString s \<Rightarrow> Some s
      | JBool b \<Rightarrow> if coerces_numbers rt then Some (py_str rt v) else None
      | JInt i \<Rightarrow> if coerces_numbers rt then Some (py_str rt v) else None
      | JFloat x \<Rightarrow> if coerces_numbers rt then Some (py_str rt v) else None
      | _ \<Rightarrow> None)"

section \<open>Python floats\<close>

text \<open>
  A Python float is an IEEE 754 double, modelled as the real number it stands for.
  \<open>to_double x\<close> is the double nearest to \<open>x\<close>, a tie going to the even significand:
  53 significant bits, with an unbounded exponent (the floats of this program stay far
  from overflow and from the subnormal range). Every float operation of the program is
  the exact operation followed by \<open>to_double\<close>: a float literal, the conversion of an
  \<open>int\<close>, \<open>*\<close> and \<open>+\<close>; the true division \<open>/\<close> of two \<open>int\<close>s is correctly
  rounded too. \<open>round(x, ndigits)\<close> is the decimal with \<open>ndigits\<close> places nearest to
  the exact value of \<open>x\<close> (a tie going to the even digit), converted to the nearest
  double.
\<close>

definition round_half_even :: "real \<Rightarrow> int" where
  "round_half_even x =
     (let f = \<lfloor>x\<rfloor>; d = x - of_int f
      in if d < 1 / 2 then f else if 1 / 2 < d then f + 1 else if even f then f else f + 1)"

definition to_double :: "real \<Rightarrow> real" where
  "to_double x =
     (if x = 0 then 0
      else (let ulp = 2 powr of_int (\<lfloor>log 2 \<bar>x\<bar>\<rfloor> - 52)
            in sgn x * of_int (round_half_even (\<bar>x\<bar> / ulp)) * ulp))"

definition float_of_nat :: "nat \<Rightarrow> real" where
  "float_of_nat n = to_double (of_nat n)"

definition float_mul :: "real \<Rightarrow> real \<Rightarrow> real" where
  "float_mul x y = to_double (x * y)"

definition float_add :: "real \<Rightarrow> real \<Rightarrow> real" where
  "float_add x y = to_double (x + y)"

definition true_div :: "nat \<Rightarrow> nat \<Rightarrow> real" where
  "true_div n m = to_double (of_nat n / of_nat m)"

definition py_round :: "real \<Rightarrow> nat \<Rightarrow> real" where
  "py_round x ndigits = to_double (of_int (round_half_even (x * 10 ^ ndigits)) / 10 ^ ndigits)"

section \<open>alerts.py: the data model\<close>

text \<open>
  The models of the webhook payload, as pydantic has validated them when the handler
  runs: \<open>status\<close> and \<open>fingerprint\<close> are strings, the values of the labels and of
  the annotations are any JSON values (\<open>Dict[str, Any]\<close>), metric values are numbers.
\<close>

record grafana_alert =
  alert_status :: string
  labels :: "json dict"
  annotations :: "json dict"
  startsAt :: string
  endsAt :: "string option"
  generatorURL :: "string option"
  fingerprint :: string
  alert_values :: "real dict option"

record grafana_webhook_payload =
  receiver :: string
  status :: string
  alerts :: "grafana_alert list"
  groupLabels :: "json dict"
  commonLabels :: "json dict"
  commonAnnotations :: "json dict"
  externalURL :: string
  version :: string
  groupKey :: string
  truncatedAlerts :: int

record alert_investigation =
  alert_name :: string
  severity :: string
  summary :: string
  root_cause_hypothesis :: string
  impact_assessment :: string
  recommended_actions :: "string list"
  related_evidence :: "string list"
  confidence :: real
  investigated_at :: datetime

text \<open>
  The constructor \<open>AlertInvestigation(...)\<close>. The program passes it the alert name, the
  severity and the summary as it got them; pydantic validates the three \<open>str\<close> fields
  and raises \<open>ValidationError\<close> when it refuses one. The other arguments are built by
  the program and have the declared types.
\<close>

definition AlertInvestigation ::
  "runtime \<Rightarrow> json \<Rightarrow> json \<Rightarrow> json \<Rightarrow> string \<Rightarrow> string \<Rightarrow> string list \<Rightarrow> string list \<Rightarrow>
   real \<Rightarrow> datetime \<Rightarrow> py_exception + alert_investigation" where
  "AlertInvestigation rt name sev summ hypothesis impact actions evidence conf now =
     (case (str_field rt name, str_field rt sev, str_field rt summ) of
        (Some n, Some s, Some m) \<Rightarrow>
          Inr \<lparr>alert_name = n,
               severity = s,
               summary = m,
               root_cause_hypothesis = hypothesis,
               impact_assessment = impact,
               recommended_actions = actions,
               related_evidence = evidence,
               confidence = conf,
               investigated_at = now\<rparr>
      | _ \<Rightarrow>
          Inl (Exc ''ValidationError''
                 (validation_message rt
                    (map fst (filter (\<lambda>(field, v). str_field rt v = None)
                       [(''alert_name'', name), (''severity'', sev), (''summary'', summ)])))
                 None))"

record servicenow_ticket =
  ticket_number :: string
  priority :: string
  short_description :: string
  description :: string
  assignment_group :: string
  category :: string
  state :: string
  created_at :: datetime
  ai_generated :: bool
  investigation_summary :: string

text \<open>The result of the reasoning engine, \<open>AgentResult(message, tool_calls)\<close>.\<close>

record agent_result =
  message :: string
  tool_calls :: "string list"

definition SEVERITY_MAPPING :: "string dict dict" where
  "SEVERITY_MAPPING =
     [(''critical'', [(''priority'', ''P1''), (''snow_priority'', ''1''), (''action'', ''page'')]),
      (''high'', [(''priority'', ''P2''), (''snow_priority'', ''2''), (''action'', ''ticket'')]),
      (''warning'', [(''priority'', ''P3''), (''snow_priority'', ''3''), (''action'', ''ticket'')]),
      (''info'', [(''priority'', ''P4''), (''snow_priority'', ''4''), (''action'', ''email_only'')])]"

text \<open>
  The first two lines of \<open>create_servicenow_ticket\<close>:
  \<open>SEVERITY_MAPPING.get(severity, SEVERITY_MAPPING["info"])["priority"]\<close>.
  The default is evaluated before \<open>get\<close> is called, so its \<open>KeyError\<close> comes first.
\<close>

definition severity_priority :: "string \<Rightarrow> py_exception + string" where
  "severity_priority sev =
     (case dict_index SEVERITY_MAPPING ''info'' of
        Inl e \<Rightarrow> Inl e
      | Inr dflt \<Rightarrow> dict_index (dict_get SEVERITY_MAPPING sev dflt) ''priority'')"

section \<open>alerts.py: the webhook\<close>

text \<open>A scheduled call \<open>process_alert(alert, common_labels, common_annotations)\<close>.\<close>

record background_task =
  task_alert :: grafana_alert
  task_common_labels :: "json dict"
  task_common_annotations :: "json dict"

text \<open>
  The body of the loop of the webhook: the severity read from the labels
  (\<open>alert.labels.get("severity", "info").lower()\<close>, which raises when the label is not
  a string), the entry appended to \<open>processed\<close>, and the task added for the alert.
\<close>

definition alert_severity :: "grafana_alert \<Rightarrow> py_exception + string" where
  "alert_severity a = py_lower (dict_get (labels a) ''severity'' (JString ''info''))"

definition queued_entry :: "grafana_alert \<Rightarrow> string \<Rightarrow> json" where
  "queued_entry a sev =
     JObject [(''fingerprint'', JString (fingerprint a)),
              (''severity'', JString sev),
              (''status'', JString ''queued_for_investigation'')]"

definition alert_task :: "grafana_webhook_payload \<Rightarrow> grafana_alert \<Rightarrow> background_task" where
  "alert_task payload a =
     \<lparr>task_alert = a, task_common_labels = commonLabels payload,
      task_common_annotations = commonAnnotations payload\<rparr>"

text \<open>
  The \<open>for alert in payload.alerts\<close> loop, with its two accumulators: the list
  \<open>processed\<close> and the tasks added to \<open>background_tasks\<close>. An exception ends the
  loop and the handler: \<open>processed\<close> is lost, the tasks added so far stay on the
  \<open>background_tasks\<close> object.
\<close>

fun webhook_loop ::
  "grafana_webhook_payload \<Rightarrow> grafana_alert list \<Rightarrow> json list \<Rightarrow> background_task list
   \<Rightarrow> (py_exception + json list) \<times> background_task list" where
  "webhook_loop payload [] processed tasks = (Inr processed, tasks)"
| "webhook_loop payload (a # rest) processed tasks =
     (case alert_severity a of
        Inl e \<Rightarrow> (Inl e, tasks)
      | Inr sev \<Rightarrow>
          if sev \<notin> set [''critical'', ''high'']
          then webhook_loop payload rest processed tasks
          else webhook_loop payload rest (processed @ [queued_entry a sev])
                 (tasks @ [alert_task payload a]))"

text \<open>
  The handler: the response it returns, or the exception it raises (the caller then gets
  no response from it), and the \<open>background_tasks\<close> object afterwards.
\<close>

definition grafana_webhook ::
  "grafana_webhook_payload \<Rightarrow> background_task list
   \<Rightarrow> (py_exception + json) \<times> background_task list" where
  "grafana_webhook payload background_tasks =
     (if status payload \<noteq> ''firing''
      then (Inr (JObject [(''status'', JString ''ignored''),
                          (''reason'', JString (''Alert status is '' @ status payload))]),
            background_tasks)
      else (case webhook_loop payload (alerts payload) [] background_tasks of
              (Inl e, tasks) \<Rightarrow> (Inl e, tasks)
            | (Inr processed, tasks) \<Rightarrow>
                (Inr (JObject [(''status'', JString ''received''),
                               (''processed_count'', JInt (int (length processed))),
                               (''alerts'', JArray processed)]),
                 tasks)))"

text \<open>Reading a field of a JSON object.\<close>

fun json_field :: "json \<Rightarrow> string \<Rightarrow> json option" where
  "json_field (JObject fs) k = map_of fs k"
| "json_field _ k = None"

section \<open>alerts.py: parsing the engine's answer\<close>

fun extract_section_loop :: "string \<Rightarrow> string list \<Rightarrow> bool \<Rightarrow> string list \<Rightarrow> string list" where
  "extract_section_loop section_name [] in_section section_lines = section_lines"
| "extract_section_loop section_name (line # rest) in_section section_lines =
     (if contains (lower line) (lower section_name) \<and>
         (contains line '':**'' \<or> contains line ''###'' \<or> contains line ''**'')
      then extract_section_loop section_name rest True section_lines
      else if in_section \<and>
              (startswith line ''**'' \<or> startswith line ''###'' \<or> strip line = [])
      then (if section_lines \<noteq> [] then section_lines
            else extract_section_loop section_name rest in_section section_lines)
      else if in_section
      then extract_section_loop section_name rest in_section (section_lines @ [strip line])
      else extract_section_loop section_name rest in_section section_lines)"

definition extract_section :: "string \<Rightarrow> string \<Rightarrow> string" where
  "extract_section text section_name =
     (let section_lines = extract_section_loop section_name (split_char CHR 0x0A text) False []
      in if section_lines \<noteq> [] then join '' '' section_lines
         else ''See full investigation for '' @ section_name)"

fun extract_actions_loop :: "string list \<Rightarrow> bool \<Rightarrow> string list \<Rightarrow> string list" where
  "extract_actions_loop [] in_actions actions = actions"
| "extract_actions_loop (line # rest) in_actions actions =
     (if contains (lower line) ''recommended'' \<and> contains (lower line) ''action''
      then extract_actions_loop rest True actions
      else if in_actions
      then (let stripped = strip line in
            if stripped \<noteq> [] \<and>
               (startswith stripped ''-'' \<or> startswith stripped ''*'' \<or> is_digit (hd stripped))
            then (let action = lstrip_chars stripped ''-*0123456789. '' in
                  if action \<noteq> [] then extract_actions_loop rest in_actions (actions @ [action])
                  else extract_actions_loop rest in_actions actions)
            else if stripped \<noteq> [] \<and> \<not> startswith stripped ''**''
            then extract_actions_loop rest in_actions (actions @ [stripped])
            else if startswith stripped ''**'' \<or> startswith stripped ''###''
            then actions
            else extract_actions_loop rest in_actions actions)
      else extract_actions_loop rest in_actions actions)"

definition extract_actions :: "string \<Rightarrow> string list" where
  "extract_actions text =
     (let actions = extract_actions_loop (split_char CHR 0x0A text) False []
      in if actions \<noteq> [] then slice_to actions 5
         else [''Review alert in Grafana'', ''Check service logs'', ''Escalate if needed''])"

definition evidence_line :: "string \<Rightarrow> bool" where
  "evidence_line line =
     (list_ex (\<lambda>keyword. contains (lower line) keyword)
        [''metric'', ''log'', ''dashboard'', ''query'', ''value'', ''error''] \<and>
      contains line '':'' \<and> \<not> startswith line ''#'')"

definition extract_evidence :: "string \<Rightarrow> string list" where
  "extract_evidence text =
     (let evidence = map strip (filter evidence_line (split_char CHR 0x0A text))
      in if evidence \<noteq> [] then slice_to evidence 10
         else [''See investigation details above''])"

section \<open>alerts.py: the investigation\<close>

text \<open>
  \<open>calculate_confidence\<close>; the result of the engine is an \<open>AgentResult\<close>, which has
  both attributes.
\<close>

definition calculate_confidence :: "agent_result \<Rightarrow> real" where
  "calculate_confidence result =
     (let n_calls = length (tool_calls result);
          message_length = length (message result);
          conf =
            min 1 (float_add (float_mul (float_of_nat n_calls) (to_double (15 / 100)))
                     (min (to_double (4 / 10)) (true_div message_length 2000)))
      in py_round conf 2)"

text \<open>
  The reasoning engine is outside the program. Everything the \<open>try\<close> block does with it
  (settings, construction, \<open>initialize\<close>, \<open>run_chat\<close> on the prompt) is one outcome:
  the \<open>AgentResult\<close> it returned, or the exception it raised.
\<close>

datatype engine_outcome = Returns agent_result | Raises py_exception

text \<open>
  \<open>investigate_alert_with_ai\<close>. The prompt is built before the \<open>try\<close>; it reaches the
  engine only, but building it calls \<open>severity.upper()\<close>. The \<open>try\<close> block ends with
  the investigation or with an exception, of the engine or of the constructor; the
  \<open>except Exception\<close> block builds the fallback with the same constructor. \<open>now\<close> is
  the reading of \<open>datetime.utcnow()\<close>.
\<close>

definition investigate_alert_with_ai ::
  "runtime \<Rightarrow> engine_outcome \<Rightarrow> datetime \<Rightarrow>
   json \<Rightarrow> json \<Rightarrow> json \<Rightarrow> json \<Rightarrow> real dict \<Rightarrow> json dict \<Rightarrow> json dict \<Rightarrow>
   py_exception + alert_investigation" where
  "investigate_alert_with_ai rt engine now name sev descr summ metric_values lbls annots =
     (case py_upper sev of
        Inl e \<Rightarrow> Inl e
      | Inr shown \<Rightarrow>
          (case (case engine of
                   Raises e \<Rightarrow> Inl e
                 | Returns result \<Rightarrow>
                     (let ai_response = message result in
                      AlertInvestigation rt name sev summ
                        (extract_section ai_response ''Root Cause'')
                        (extract_section ai_response ''Impact'')
                        (extract_actions ai_response)
                        (extract_evidence ai_response)
                        (calculate_confidence result)
                        now)) of
             Inr investigation \<Rightarrow> Inr investigation
           | Inl e \<Rightarrow>
               if is_Exception e
               then AlertInvestigation rt name sev summ
                      ''AI investigation failed - manual investigation required''
                      (''Alert triggered: '' @ format_value rt descr)
                      [''Check Grafana dashboard'', ''Review recent deployments'',
                       ''Check service logs'']
                      [''AI investigation unavailable'']
                      0
                      now
               else Inl e))"

section \<open>alerts.py: the ticket store\<close>

text \<open>
  \<open>TICKETS_DIR\<close> is a flat directory: file names with their contents. A file holds JSON
  text (what \<open>json.loads\<close> returns for it: a ticket written by this program, or some
  other JSON value) or text that is not JSON.
  Writing a file succeeds: the directory exists and is writable.
\<close>

datatype ticket_data = Ticket servicenow_ticket | Other_json json

datatype file_content = Json_text ticket_data | Plain_text string

type_synonym tickets_dir = "(string \<times> file_content) list"

definition write_text :: "tickets_dir \<Rightarrow> string \<Rightarrow> file_content \<Rightarrow> tickets_dir" where
  "write_text dir fname content = AList.update fname content dir"

text \<open>
  The two renderings \<open>format_ticket_description\<close> and \<open>format_ticket_text\<close> produce
  display text (with a float printed as a percentage); they are parameters of the model.
\<close>

record formatters =
  format_ticket_description :: "alert_investigation \<Rightarrow> string"
  format_ticket_text :: "servicenow_ticket \<Rightarrow> string"

text \<open>
  \<open>create_servicenow_ticket\<close> reads the clock twice: \<open>now_number\<close> for the ticket
  number and \<open>now_created\<close> for \<open>created_at\<close>.
\<close>

definition create_servicenow_ticket ::
  "formatters \<Rightarrow> datetime \<Rightarrow> datetime \<Rightarrow> tickets_dir \<Rightarrow>
   grafana_alert \<Rightarrow> alert_investigation \<Rightarrow> string \<Rightarrow>
   py_exception + (servicenow_ticket \<times> tickets_dir)" where
  "create_servicenow_ticket fmt now_number now_created dir alert investigation sev =
     (case severity_priority sev of
        Inl e \<Rightarrow> Inl e
      | Inr prio \<Rightarrow>
          (let number = ''INC'' @ strftime_compact now_number;
               ticket =
                 \<lparr>ticket_number = number,
                  priority = prio,
                  short_description =
                    ''['' @ upper sev @ ''] '' @ alert_name investigation,
                  description = format_ticket_description fmt investigation,
                  assignment_group = ''platform-ops'',
                  category = ''Infrastructure'',
                  state = ''New'',
                  created_at = now_created,
                  ai_generated = True,
                  investigation_summary = root_cause_hypothesis investigation\<rparr>;
               dir1 = write_text dir (number @ ''.json'') (Json_text (Ticket ticket));
               dir2 = write_text dir1 (number @ ''.txt'')
                        (Plain_text (format_ticket_text fmt ticket))
           in Inr (ticket, dir2)))"

definition glob_json :: "tickets_dir \<Rightarrow> string list" where
  "glob_json dir = filter (\<lambda>fname. endswith fname ''.json'') (map fst dir)"

text \<open>
  The body of the loop of \<open>list_tickets\<close>: a file that does not parse is logged and
  skipped.
\<close>

fun read_tickets :: "tickets_dir \<Rightarrow> string list \<Rightarrow> ticket_data list" where
  "read_tickets dir [] = []"
| "read_tickets dir (fname # rest) =
     (case map_of dir fname of
        Some (Json_text data) \<Rightarrow> data # read_tickets dir rest
      | _ \<Rightarrow> read_tickets dir rest)"

text \<open>
  \<open>list_tickets(limit: int = 50)\<close>; the result is the pair of \<open>count\<close> and
  \<open>tickets\<close>. \<open>sorted(..., reverse=True)\<close> orders the paths of one directory by their
  file names, largest first.
\<close>

definition list_tickets :: "int option \<Rightarrow> tickets_dir \<Rightarrow> nat \<times> ticket_data list" where
  "list_tickets limit dir =
     (let lim = (case limit of None \<Rightarrow> 50 | Some l \<Rightarrow> l);
          tickets = read_tickets dir (slice_to (rev (sort (glob_json dir))) lim)
      in (length tickets, tickets))"

section \<open>alerts.py: the background task\<close>

text \<open>What the outside does during one run of \<open>process_alert\<close>.\<close>

record outside =
  libraries :: runtime
  render :: formatters
  engine :: engine_outcome
  now_investigated :: datetime
  now_number :: datetime
  now_created :: datetime

text \<open>
  \<open>process_alert\<close> returns nothing; the model returns the ticket it created, if any,
  and the directory. An exception caught by \<open>except Exception\<close> is logged and ends the
  task without a ticket; any other exception leaves the task.
\<close>

definition process_alert ::
  "outside \<Rightarrow> tickets_dir \<Rightarrow> grafana_alert \<Rightarrow> json dict \<Rightarrow> json dict \<Rightarrow>
   py_exception + (servicenow_ticket option \<times> tickets_dir)" where
  "process_alert out dir alert common_labels common_annotations =
     (case (let name = dict_get (labels alert) ''alertname'' (JString ''Unknown Alert'') in
            case py_lower (dict_get (labels alert) ''severity'' (JString ''unknown'')) of
              Inl e \<Rightarrow> Inl e
            | Inr sev \<Rightarrow>
                (let descr = dict_get (annotations alert) ''description'' (JString ''No description'');
                     summ = dict_get (annotations alert) ''summary'' name;
                     metric_values = (case alert_values alert of None \<Rightarrow> [] | Some vs \<Rightarrow> vs)
                 in case investigate_alert_with_ai (libraries out) (engine out)
                           (now_investigated out) name (JString sev) descr summ metric_values
                           (labels alert) (annotations alert) of
                      Inl e \<Rightarrow> Inl e
                    | Inr investigation \<Rightarrow>
                        create_servicenow_ticket (render out) (now_number out) (now_created out)
                          dir alert investigation sev)) of
        Inr (ticket, dir') \<Rightarrow> Inr (Some ticket, dir')
      | Inl e \<Rightarrow> if is_Exception e then Inr (None, dir) else Inl e)"

section \<open>mcp_client.py: the connection\<close>

text \<open>
  The server and the transport are outside the program. \<open>attempt k\<close> is what happens in
  the \<open>k\<close>-th connection attempt ever made: entering the transport context fails,
  entering the session context fails, \<open>initialize\<close> fails, or all three succeed.
  \<open>teardown\<close> says whether closing an exit stack raises, and \<open>call_tool k\<close> is the
  outcome of the \<open>k\<close>-th remote call: it raises, it returns a response without content,
  or it returns content (a Python value, which may be \<open>None\<close>). A failure of a
  connection attempt is an exception that \<open>except Exception\<close> catches.
\<close>

datatype resource = Transport nat | Client_session nat

datatype attempt_outcome =
    Transport_fails py_exception
  | Session_fails py_exception
  | Initialize_fails py_exception
  | Connects

datatype 'v call_outcome =
  Call_raises py_exception | Call_no_content | Call_content "'v option"

record ('a, 'v) server =
  attempt :: "nat \<Rightarrow> attempt_outcome"
  teardown :: "resource list \<Rightarrow> py_exception option"
  call_tool :: "nat \<Rightarrow> string \<Rightarrow> 'a dict \<Rightarrow> 'v call_outcome"

text \<open>
  What the program does to the outside: the resources open now, every release so far in
  the order it happened, and the numbers of connection attempts and remote calls made.
\<close>

record world =
  opened :: "resource list"
  released :: "resource list"
  attempts_made :: nat
  calls_made :: nat

text \<open>
  The fields of \<open>MCPClient\<close>. An \<open>AsyncExitStack\<close> is the list of the contexts entered
  on it, in the order they were entered; a session is named by the attempt that made it.
\<close>

record mcp_client =
  session :: "nat option"
  exit_stack :: "resource list option"
  connection_attempts :: nat
  max_retries :: nat

definition init_client :: mcp_client where
  "init_client = \<lparr>session = None, exit_stack = None, connection_attempts = 0, max_retries = 3\<rparr>"

text \<open>
  \<open>AsyncExitStack.__aexit__\<close>: every context on the stack is closed, the last entered
  first, also when one of them raises; the exception, if any, is raised at the end.
\<close>

definition aexit ::
  "('a, 'v) server \<Rightarrow> resource list \<Rightarrow> world \<Rightarrow> py_exception option \<times> world" where
  "aexit srv stack w =
     (teardown srv stack,
      w\<lparr>opened := filter (\<lambda>r. r \<notin> set stack) (opened w),
        released := released w @ rev stack\<rparr>)"

text \<open>
  The \<open>try\<close> block of \<open>connect\<close>: the exception it raised, if any, with the client and
  the world as they are at that point.
\<close>

definition try_connect ::
  "('a, 'v) server \<Rightarrow> mcp_client \<Rightarrow> world \<Rightarrow> py_exception option \<times> mcp_client \<times> world" where
  "try_connect srv c w =
     (let k = attempts_made w;
          w0 = w\<lparr>attempts_made := Suc k\<rparr>;
          c0 = c\<lparr>exit_stack := Some []\<rparr>
      in case attempt srv k of
           Transport_fails e \<Rightarrow> (Some e, c0, w0)
         | Session_fails e \<Rightarrow>
             (Some e, c0\<lparr>exit_stack := Some [Transport k]\<rparr>,
              w0\<lparr>opened := opened w0 @ [Transport k]\<rparr>)
         | Initialize_fails e \<Rightarrow>
             (Some e, c0\<lparr>exit_stack := Some [Transport k, Client_session k], session := Some k\<rparr>,
              w0\<lparr>opened := opened w0 @ [Transport k, Client_session k]\<rparr>)
         | Connects \<Rightarrow>
             (None,
              c0\<lparr>exit_stack := Some [Transport k, Client_session k], session := Some k,
                 connection_attempts := 0\<rparr>,
              w0\<lparr>opened := opened w0 @ [Transport k, Client_session k]\<rparr>))"

text \<open>
  The \<open>except\<close> block up to the final test: the counter goes up, the exit stack is closed
  (an error while closing is dropped) and both fields are cleared.
\<close>

definition connect_cleanup ::
  "('a, 'v) server \<Rightarrow> mcp_client \<Rightarrow> world \<Rightarrow> mcp_client \<times> world" where
  "connect_cleanup srv c w =
     (let c1 = c\<lparr>connection_attempts := connection_attempts c + 1\<rparr>
      in case exit_stack c1 of
           None \<Rightarrow> (c1, w)
         | Some stack \<Rightarrow> (c1\<lparr>exit_stack := None, session := None\<rparr>, snd (aexit srv stack w)))"

definition connect_error :: "nat \<Rightarrow> py_exception \<Rightarrow> py_exception" where
  "connect_error n e =
     Exc ''Exception''
       (''Failed to connect to MCP server after '' @ str_nat n @ '' attempts: '' @ exc_msg e)
       (Some e)"

text \<open>The \<open>while\<close> loop of \<open>connect\<close>.\<close>

function connect_loop ::
  "('a, 'v) server \<Rightarrow> mcp_client \<Rightarrow> world \<Rightarrow> (py_exception + unit) \<times> mcp_client \<times> world" where
  "connect_loop srv c w =
     (if connection_attempts c < max_retries c
      then (case try_connect srv c w of
              (None, c1, w1) \<Rightarrow> (Inr (), c1, w1)
            | (Some e, c1, w1) \<Rightarrow>
                (case connect_cleanup srv c1 w1 of
                   (c2, w2) \<Rightarrow>
                     if max_retries c2 \<le> connection_attempts c2
                     then (Inl (connect_error (max_retries c2) e), c2, w2)
                     else connect_loop srv c2 w2))
      else (Inr (), c, w))"
  by pat_completeness auto
termination
  by (relation "measure (\<lambda>(srv, c, w). max_retries c - connection_attempts c)")
     (auto simp: try_connect_def connect_cleanup_def Let_def
        split: attempt_outcome.splits option.splits)

declare connect_loop.simps [simp del]

definition connect ::
  "('a, 'v) server \<Rightarrow> mcp_client \<Rightarrow> world \<Rightarrow> (py_exception + unit) \<times> mcp_client \<times> world" where
  "connect srv c w = (if session c \<noteq> None then (Inr (), c, w) else connect_loop srv c w)"

text \<open>
  \<open>disconnect\<close>: when closing the exit stack raises, the three assignments after it are
  not reached; the stack object stays in its field, emptied by the close.
\<close>

definition disconnect :: "('a, 'v) server \<Rightarrow> mcp_client \<Rightarrow> world \<Rightarrow> mcp_client \<times> world" where
  "disconnect srv c w =
     (case exit_stack c of
        None \<Rightarrow> (c, w)
      | Some stack \<Rightarrow>
          (case aexit srv stack w of
             (Some e, w1) \<Rightarrow> (c\<lparr>exit_stack := Some []\<rparr>, w1)
           | (None, w1) \<Rightarrow>
               (c\<lparr>exit_stack := None, session := None, connection_attempts := 0\<rparr>, w1)))"

definition ensure_connected ::
  "('a, 'v) server \<Rightarrow> mcp_client \<Rightarrow> world \<Rightarrow> (py_exception + unit) \<times> mcp_client \<times> world" where
  "ensure_connected srv c w = (if session c = None then connect srv c w else (Inr (), c, w))"

section \<open>mcp_client.py: invoking a tool through the cache\<close>

text \<open>
  Modelled from the spec: the module \<open>backend.tools.cache\<close> (\<open>get_cache\<close> and the
  cache's \<open>get\<close>, \<open>set\<close> and \<open>invalidate\<close>) is not among the sources. The cache is a
  key-value store from (tool name, canonicalized arguments) to a result; the canonical
  form of an argument mapping lists its entries in the order of their keys, so that it is
  deterministic and independent of insertion order. A result is a Python value, which
  may be \<open>None\<close> (here \<open>None\<close> of the option type).
\<close>

type_synonym ('a, 'v) cache = "string \<times> 'a dict \<Rightarrow> 'v option option"

text \<open>Modelled from the spec: the canonical form of an argument mapping (missing above).\<close>

definition canonical :: "'a dict \<Rightarrow> 'a dict" where
  "canonical args =
     List.map_filter (\<lambda>k. map_option (Pair k) (map_of args k))
       (sorted_list_of_set (set (map fst args)))"

text \<open>Modelled from the spec: the canonical key of a cache entry (missing above).\<close>

definition cache_key :: "string \<Rightarrow> 'a dict \<Rightarrow> string \<times> 'a dict" where
  "cache_key name args = (name, canonical args)"

text \<open>
  Modelled from the spec: \<open>get(name, args) -> value | absent\<close> (missing above). The
  caller tests the result with \<open>is not None\<close>, so absent is \<open>None\<close>.
\<close>

definition cache_get :: "('a, 'v) cache \<Rightarrow> string \<Rightarrow> 'a dict \<Rightarrow> 'v option" where
  "cache_get cache name args =
     (case cache (cache_key name args) of None \<Rightarrow> None | Some stored \<Rightarrow> stored)"

text \<open>Modelled from the spec: \<open>set(name, args, value)\<close> (missing above).\<close>

definition cache_set ::
  "('a, 'v) cache \<Rightarrow> string \<Rightarrow> 'a dict \<Rightarrow> 'v option \<Rightarrow> ('a, 'v) cache" where
  "cache_set cache name args v = cache(cache_key name args \<mapsto> v)"

text \<open>
  What \<open>invoke_tool\<close> returns: the content of a response (fresh or cached), or the
  dictionary \<open>{"error": "No response from tool <name>"}\<close>.
\<close>

datatype 'v tool_result = Content "'v option" | Error_dict string

definition invoke_error :: "string \<Rightarrow> py_exception \<Rightarrow> py_exception" where
  "invoke_error name e =
     Exc ''Exception''
       (''Failed to invoke tool '' @ [CHR 0x27] @ name @ [CHR 0x27] @ '': '' @ exc_msg e)
       (Some e)"

text \<open>
  The \<open>except Exception\<close> block of \<open>invoke_tool\<close>: what leaves the function when
  \<open>e\<close> was raised inside the \<open>try\<close>.
\<close>

definition invoke_except :: "string \<Rightarrow> py_exception \<Rightarrow> py_exception" where
  "invoke_except name e = (if is_Exception e then invoke_error name e else e)"

text \<open>
  \<open>invoke_tool\<close>, on the client, the process-wide cache and the world. A cached result
  is returned only when it \<open>is not None\<close>. With no session after \<open>ensure_connected\<close>,
  \<open>self.session.call_tool\<close> raises \<open>AttributeError\<close>, which the \<open>except\<close> block wraps
  like any other exception.
\<close>

definition invoke_tool ::
  "('a, 'v) server \<Rightarrow> string \<Rightarrow> 'a dict \<Rightarrow> mcp_client \<Rightarrow> ('a, 'v) cache \<Rightarrow> world \<Rightarrow>
   (py_exception + 'v tool_result) \<times> mcp_client \<times> ('a, 'v) cache \<times> world" where
  "invoke_tool srv name args c cache w =
     (case cache_get cache name args of
        Some cached_result \<Rightarrow> (Inr (Content (Some cached_result)), c, cache, w)
      | None \<Rightarrow>
          (case ensure_connected srv c w of
             (Inl e, c1, w1) \<Rightarrow> (Inl (invoke_except name e), c1, cache, w1)
           | (Inr u, c1, w1) \<Rightarrow>
               (case session c1 of
                  None \<Rightarrow>
                    (Inl (invoke_except name
                            (Exc ''AttributeError''
                               (CHR 0x27 # ''NoneType'' @ [CHR 0x27] @
                                  '' object has no attribute '' @
                                  [CHR 0x27] @ ''call_tool'' @ [CHR 0x27])
                               None)),
                     c1, cache, w1)
                | Some s \<Rightarrow>
                    (let w2 = w1\<lparr>calls_made := Suc (calls_made w1)\<rparr>
                     in case call_tool srv (calls_made w1) name args of
                          Call_raises e \<Rightarrow> (Inl (invoke_except name e), c1, cache, w2)
                        | Call_no_content \<Rightarrow>
                            (Inr (Error_dict (''No response from tool '' @ name)), c1, cache, w2)
                        | Call_content result \<Rightarrow>
                            (Inr (Content result), c1, cache_set cache name args result, w2)))))"

section \<open>Notions used in the statements\<close>

text \<open>
  The fallback hypothesis as the specification spells it, with an em dash (U+2014, three
  bytes in UTF-8) where the program has a hyphen.
\<close>

definition spec_fallback_hypothesis :: string where
  "spec_fallback_hypothesis =
     ''AI investigation failed '' @ [CHR 0xE2, CHR 0x80, CHR 0x94] @
     '' manual investigation required''"

text \<open>
  The real-number value of the confidence formula for \<open>n\<close> tool calls and a message of
  \<open>m\<close> characters, and that value rounded to two decimals (a tie going to the even
  digit, as \<open>round\<close> does) and then to the nearest double.
\<close>

definition confidence_formula :: "nat \<Rightarrow> nat \<Rightarrow> real" where
  "confidence_formula n m = min 1 (of_nat n * (15 / 100) + min (4 / 10) (of_nat m / 2000))"

definition rounded_formula :: "nat \<Rightarrow> nat \<Rightarrow> real" where
  "rounded_formula n m =
     to_double (of_int (round_half_even (confidence_formula n m * 10 ^ 2)) / 10 ^ 2)"

text \<open>
  An alert whose severity label is a string or is missing, and a dictionary in which the
  value of a key is a string or is missing.
\<close>

definition severity_is_text :: "grafana_alert \<Rightarrow> bool" where
  "severity_is_text a = is_JString (dict_get (labels a) ''severity'' (JString ''info''))"

definition text_or_absent :: "json dict \<Rightarrow> string \<Rightarrow> bool" where
  "text_or_absent d k = is_JString (dict_get d k (JString []))"

text \<open>An outcome of the engine that \<open>except Exception\<close> handles: a result or a caught exception.\<close>

fun catchable :: "engine_outcome \<Rightarrow> bool" where
  "catchable (Returns result) = True"
| "catchable (Raises e) = is_Exception e"

text \<open>
  The exception of a failed attempt, and the contexts an attempt had entered on the exit
  stack when it ended.
\<close>

fun failure_of :: "attempt_outcome \<Rightarrow> py_exception option" where
  "failure_of (Transport_fails e) = Some e"
| "failure_of (Session_fails e) = Some e"
| "failure_of (Initialize_fails e) = Some e"
| "failure_of Connects = None"

fun acquired :: "attempt_outcome \<Rightarrow> nat \<Rightarrow> resource list" where
  "acquired (Transport_fails e) k = []"
| "acquired (Session_fails e) k = [Transport k]"
| "acquired (Initialize_fails e) k = [Transport k, Client_session k]"
| "acquired Connects k = [Transport k, Client_session k]"

text \<open>
  The world after one failed attempt and its cleanup: what the attempt had entered is
  closed again, the last entered first.
\<close>

definition after_failed_attempt :: "('a, 'v) server \<Rightarrow> world \<Rightarrow> world" where
  "after_failed_attempt srv w =
     w\<lparr>attempts_made := Suc (attempts_made w),
       opened := filter (\<lambda>r. r \<notin> set (acquired (attempt srv (attempts_made w)) (attempts_made w)))
                   (opened w @ acquired (attempt srv (attempts_made w)) (attempts_made w)),
       released := released w @ rev (acquired (attempt srv (attempts_made w)) (attempts_made w))\<rparr>"

text \<open>
  The values \<open>datetime.utcnow()\<close> can return for which \<open>%Y\<close> prints four digits, and
  the order of two such values up to the second.
\<close>

definition valid_datetime :: "datetime \<Rightarrow> bool" where
  "valid_datetime t =
     (1000 \<le> year t \<and> year t \<le> 9999 \<and> 1 \<le> month t \<and> month t \<le> 12 \<and>
      1 \<le> day t \<and> day t \<le> 31 \<and> hour t < 24 \<and> minute t < 60 \<and> second t < 60 \<and>
      microsecond t < 1000000)"

definition earlier :: "datetime \<Rightarrow> datetime \<Rightarrow> bool" where
  "earlier a b =
     ([year a, month a, day a, hour a, minute a, second a]
        < [year b, month b, day b, hour b, minute b, second b])"

text \<open>
  A sequence of calls of \<open>create_servicenow_ticket\<close>, each with its arguments and its
  two readings of the clock, on the directory the call before left; the tickets are
  returned in the order they were created.
\<close>

record ticket_request =
  req_alert :: grafana_alert
  req_investigation :: alert_investigation
  req_severity :: string
  req_now_number :: datetime
  req_now_created :: datetime

fun create_tickets ::
  "formatters \<Rightarrow> ticket_request list \<Rightarrow> tickets_dir \<Rightarrow> servicenow_ticket list \<times> tickets_dir" where
  "create_tickets fmt [] dir = ([], dir)"
| "create_tickets fmt (r # rs) dir =
     (case create_servicenow_ticket fmt (req_now_number r) (req_now_created r) dir
             (req_alert r) (req_investigation r) (req_severity r) of
        Inl e \<Rightarrow> create_tickets fmt rs dir
      | Inr (t, dir') \<Rightarrow>
          (case create_tickets fmt rs dir' of (ts, dir'') \<Rightarrow> (t # ts, dir'')))"

text \<open>The names of the two files a ticket is written to.\<close>

definition json_name :: "servicenow_ticket \<Rightarrow> string" where
  "json_name t = ticket_number t @ ''.json''"

definition txt_name :: "servicenow_ticket \<Rightarrow> string" where
  "txt_name t = ticket_number t @ ''.txt''"

section \<open>Example inputs\<close>

definition example_time :: datetime where
  "example_time =
     \<lparr>year = 2024, month = 3, day = 9, hour = 14, minute = 5, second = 7, microsecond = 0\<rparr>"

definition example_alert :: "string \<Rightarrow> json dict \<Rightarrow> grafana_alert" where
  "example_alert fp lbls =
     \<lparr>alert_status = ''firing'', labels = lbls,
      annotations = [(''description'', JString ''CPU above 90%'')],
      startsAt = ''2024-03-09T14:05:07Z'', endsAt = None, generatorURL = None,
      fingerprint = fp, alert_values = None\<rparr>"

definition example_payload :: "string \<Rightarrow> grafana_alert list \<Rightarrow> grafana_webhook_payload" where
  "example_payload st as =
     \<lparr>receiver = ''sm3'', status = st, alerts = as, groupLabels = [],
      commonLabels = [(''team'', JString ''ops'')], commonAnnotations = [],
      externalURL = ''http://grafana'', version = ''4'', groupKey = ''g'', truncatedAlerts = 0\<rparr>"

definition example_formatters :: formatters where
  "example_formatters =
     \<lparr>format_ticket_description = root_cause_hypothesis, format_ticket_text = ticket_number\<rparr>"

definition example_runtime :: runtime where
  "example_runtime =
     \<lparr>py_str = (\<lambda>v. case v of
                        JNull \<Rightarrow> ''None''
                      | JBool b \<Rightarrow> if b then ''True'' else ''False''
                      | _ \<Rightarrow> ''<'' @ type_name v @ ''>''),
      coerces_numbers = False,
      validation_message = (\<lambda>fs. ''validation error for AlertInvestigation: '' @ join '', '' fs)\<rparr>"

definition example_outside :: outside where
  "example_outside =
     \<lparr>libraries = example_runtime,
      render = example_formatters,
      engine = Raises (Exc ''TimeoutError'' ''engine unreachable'' None),
      now_investigated = example_time, now_number = example_time, now_created = example_time\<rparr>"

definition example_result :: "nat \<Rightarrow> nat \<Rightarrow> agent_result" where
  "example_result n m = \<lparr>message = replicate m CHR ''x'', tool_calls = replicate n ''query''\<rparr>"

definition example_investigation :: "datetime \<Rightarrow> alert_investigation" where
  "example_investigation now =
     \<lparr>alert_name = ''HighCPU'',
      severity = ''critical'',
      summary = ''CPU'',
      root_cause_hypothesis = ''AI investigation failed - manual investigation required'',
      impact_assessment = ''Alert triggered: CPU above 90%'',
      recommended_actions =
        [''Check Grafana dashboard'', ''Review recent deployments'', ''Check service logs''],
      related_evidence = [''AI investigation unavailable''],
      confidence = 0,
      investigated_at = now\<rparr>"

definition example_request :: "nat \<Rightarrow> ticket_request" where
  "example_request sec =
     \<lparr>req_alert = example_alert ''f1'' [(''severity'', JString ''critical'')],
      req_investigation = example_investigation (example_time\<lparr>second := sec\<rparr>),
      req_severity = ''critical'',
      req_now_number = example_time\<lparr>second := sec\<rparr>,
      req_now_created = example_time\<lparr>second := sec\<rparr>\<rparr>"

definition example_ticket :: "nat \<Rightarrow> servicenow_ticket" where
  "example_ticket sec =
     \<lparr>ticket_number = ''INC'' @ strftime_compact (example_time\<lparr>second := sec\<rparr>),
      priority = ''P1'',
      short_description = ''[CRITICAL] HighCPU'',
      description = ''AI investigation failed - manual investigation required'',
      assignment_group = ''platform-ops'', category = ''Infrastructure'', state = ''New'',
      created_at = example_time\<lparr>second := sec\<rparr>, ai_generated = True,
      investigation_summary = ''AI investigation failed - manual investigation required''\<rparr>"

definition idle_world :: world where
  "idle_world = \<lparr>opened = [], released = [], attempts_made = 0, calls_made = 0\<rparr>"

definition refusing_server :: "(string, string) server" where
  "refusing_server =
     \<lparr>attempt = (\<lambda>k. if k = 0 then Transport_fails (Exc ''ConnectError'' ''refused'' None)
                       else if k = 1 then Session_fails (Exc ''RuntimeError'' ''no session'' None)
                       else Initialize_fails (Exc ''TimeoutError'' ''initialize timed out'' None)),
      teardown = (\<lambda>stack. None),
      call_tool = (\<lambda>k name args. Call_no_content)\<rparr>"

definition healthy_server :: "(string, string) server" where
  "healthy_server =
     \<lparr>attempt = (\<lambda>k. Connects),
      teardown = (\<lambda>stack. None),
      call_tool = (\<lambda>k name args. Call_content (Some ''42''))\<rparr>"

definition closing_fails_server :: "(string, string) server" where
  "closing_fails_server =
     \<lparr>attempt = (\<lambda>k. Connects),
      teardown = (\<lambda>stack. Some (Exc ''RuntimeError'' ''cancel scope in another task'' None)),
      call_tool = (\<lambda>k name args. Call_content (Some ''42''))\<rparr>"

definition crashing_tool_server :: "(string, string) server" where
  "crashing_tool_server =
     \<lparr>attempt = (\<lambda>k. Connects),
      teardown = (\<lambda>stack. None),
      call_tool = (\<lambda>k name args. Call_raises (Exc ''McpError'' ''tool crashed'' None))\<rparr>"

definition connected_client :: mcp_client where
  "connected_client =
     \<lparr>session = Some 0, exit_stack = Some [Transport 0, Client_session 0],
      connection_attempts = 0, max_retries = 3\<rparr>"

definition connected_world :: "nat \<Rightarrow> world" where
  "connected_world n =
     \<lparr>opened = [Transport 0, Client_session 0], released = [], attempts_made = Suc 0,
      calls_made = n\<rparr>"

lemma lower_examples:
  "lower ''CRITICAL'' = ''critical''" "lower ''warning'' = ''warning''"
  "lower ''info'' = ''info''" "lower ''High'' = ''high''" "lower ''unknown'' = ''unknown''"
  "lower ''critical'' = ''critical''" "lower ''high'' = ''high''"
  by code_simp+

lemma contains_infix: "contains (p @ x @ q) x"
proof (induction p)
  case Nil
  have s: "startswith (x @ q) x"
    by (simp add: startswith_def)
  show ?case
  proof (cases "x @ q")
    case Nil
    then show ?thesis by simp
  next
    case (Cons a list)
    with s have "startswith (a # list) x" by simp
    with Cons show ?thesis by simp
  qed
next
  case (Cons a p)
  then show ?case by simp
qed

section \<open>Rounding to a double\<close>

lemma round_half_even_cases:
  "round_half_even x = \<lfloor>x\<rfloor> \<or> round_half_even x = \<lfloor>x\<rfloor> + 1 \<and> 1 / 2 \<le> x - of_int \<lfloor>x\<rfloor>"
  by (auto simp: round_half_even_def Let_def)

lemma round_half_even_ge: "of_int a \<le> x \<Longrightarrow> a \<le> round_half_even x"
proof -
  assume "of_int a \<le> x"
  then have "a \<le> \<lfloor>x\<rfloor>" by (simp add: le_floor_iff)
  with round_half_even_cases [of x] show ?thesis by auto
qed

lemma round_half_even_le: "x \<le> of_int b \<Longrightarrow> round_half_even x \<le> b"
proof -
  assume b: "x \<le> of_int b"
  then have f: "\<lfloor>x\<rfloor> \<le> b" by (simp add: floor_le_iff)
  show ?thesis
  proof (cases "round_half_even x = \<lfloor>x\<rfloor>")
    case True
    with f show ?thesis by simp
  next
    case False
    with round_half_even_cases [of x] have r: "round_half_even x = \<lfloor>x\<rfloor> + 1"
      and d: "1 / 2 \<le> x - of_int \<lfloor>x\<rfloor>" by auto
    from d have "of_int \<lfloor>x\<rfloor> < x" by simp
    with b have "of_int \<lfloor>x\<rfloor> < (of_int b :: real)" by linarith
    then have "\<lfloor>x\<rfloor> < b" by simp
    with r show ?thesis by simp
  qed
qed

lemma round_half_even_of_int [simp]: "round_half_even (of_int k) = k"
  by (simp add: round_half_even_def)

lemma round_half_even_down:
  "of_int k \<le> x \<Longrightarrow> x < of_int k + 1 / 2 \<Longrightarrow> round_half_even x = k"
proof -
  assume a: "of_int k \<le> x" "x < of_int k + 1 / 2"
  then have "\<lfloor>x\<rfloor> = k" by (intro floor_unique) auto
  with a show ?thesis by (simp add: round_half_even_def Let_def)
qed

lemma round_half_even_up:
  "of_int k + 1 / 2 < x \<Longrightarrow> x < of_int k + 1 \<Longrightarrow> round_half_even x = k + 1"
proof -
  assume a: "of_int k + 1 / 2 < x" "x < of_int k + 1"
  then have "\<lfloor>x\<rfloor> = k" by (intro floor_unique) auto
  with a show ?thesis by (simp add: round_half_even_def Let_def)
qed

lemma round_half_even_tie:
  "x = of_int k + 1 / 2 \<Longrightarrow> round_half_even x = (if even k then k else k + 1)"
proof -
  assume a: "x = of_int k + 1 / 2"
  then have "\<lfloor>x\<rfloor> = k" by (intro floor_unique) auto
  with a show ?thesis by (simp add: round_half_even_def Let_def)
qed

lemma to_double_binade:
  assumes "0 < x" and "2 powr of_int e \<le> x" and "x < 2 powr of_int (e + 1)"
  shows "to_double x =
           of_int (round_half_even (x / 2 powr of_int (e - 52))) * 2 powr of_int (e - 52)"
proof -
  from assms have "\<lfloor>log 2 x\<rfloor> = e"
    by (simp add: floor_log_eq_powr_iff)
  with assms(1) show ?thesis
    by (simp add: to_double_def Let_def)
qed


lemma two_powr_neg: "(2::real) powr (- real n) = 1 / 2 ^ n"
  by (simp add: powr_minus powr_realpow divide_inverse)

lemma two_powr_pos: "(2::real) powr (real n) = 2 ^ n"
  by (simp add: powr_realpow)

lemma to_double_small:
  assumes "1 / 2 ^ n \<le> x" and "x < 2 / 2 ^ n"
  shows "to_double x = of_int (round_half_even (x * 2 ^ (n + 52))) / 2 ^ (n + 52)"
proof -
  have c: "of_int (- int n) = - real n" "of_int (- int n + 1) = 1 + - real n"
    "of_int (- int n - 52) = - real (n + 52)"
    by simp_all
  have q: "(2::real) powr (1 + - real n) = 2 / 2 ^ n"
    by (simp only: powr_add two_powr_neg) simp
  from assms(1) have "0 < x"
    by (metis divide_pos_pos less_le_trans zero_less_numeral zero_less_one zero_less_power)
  from to_double_binade [of x "- int n", OF this] assms show ?thesis
    by (simp only: c q two_powr_neg) simp
qed

lemma to_double_large:
  assumes "2 ^ n \<le> x" and "x < 2 * 2 ^ n" and "n \<le> 52"
  shows "to_double x = of_int (round_half_even (x * 2 ^ (52 - n))) / 2 ^ (52 - n)"
proof -
  from assms(3) have c: "of_int (int n) = real n" "of_int (int n + 1) = 1 + real n"
    "of_int (int n - 52) = - real (52 - n)"
    by simp_all
  have q: "(2::real) powr (1 + real n) = 2 * 2 ^ n"
    by (simp only: powr_add two_powr_pos) simp
  from assms(1) have "0 < x"
    by (metis less_le_trans zero_less_numeral zero_less_power)
  from to_double_binade [of x "int n", OF this] assms(1,2) show ?thesis
    by (simp only: c q two_powr_neg two_powr_pos) simp
qed

lemma to_double_015: "to_double (15 / 100) = 5404319552844595 / 2 ^ 55"
proof -
  have "round_half_even (15 / 100 * 2 ^ 55) = 5404319552844595"
    by (rule round_half_even_down) simp_all
  then show ?thesis
    using to_double_small [of 3 "15 / 100"] by simp
qed

lemma to_double_0 [simp]: "to_double 0 = 0"
  by (simp add: to_double_def)

lemma to_double_nonneg: "0 \<le> x \<Longrightarrow> 0 \<le> to_double x"
proof (cases "x = 0")
  case True
  then show ?thesis by simp
next
  case False
  assume "0 \<le> x"
  with False have x: "0 < x" by simp
  have "0 \<le> round_half_even (\<bar>x\<bar> / 2 powr of_int (\<lfloor>log 2 \<bar>x\<bar>\<rfloor> - 52))"
    by (rule round_half_even_ge) simp
  with x show ?thesis
    by (simp add: to_double_def Let_def)
qed

lemma to_double_bounds:
  assumes "0 < x" and "2 powr of_int e \<le> x" and "x < 2 powr of_int (e + 1)"
  shows "2 powr of_int e \<le> to_double x" and "to_double x \<le> 2 powr of_int (e + 1)"
proof -
  let ?u = "2 powr of_int (e - 52) :: real"
  have u: "0 < ?u" by simp
  have lo: "2 powr of_int e = 2 ^ 52 * ?u"
  proof -
    have "real_of_int e = 52 + real_of_int (e - 52)" by simp
    then have "(2::real) powr of_int e = 2 powr (52 + of_int (e - 52))" by (simp only:)
    also have "\<dots> = 2 powr 52 * ?u" by (rule powr_add)
    finally show ?thesis by simp
  qed
  have hi: "2 powr of_int (e + 1) = 2 ^ 53 * ?u"
  proof -
    have "real_of_int (e + 1) = 53 + real_of_int (e - 52)" by simp
    then have "(2::real) powr of_int (e + 1) = 2 powr (53 + of_int (e - 52))" by (simp only:)
    also have "\<dots> = 2 powr 53 * ?u" by (rule powr_add)
    finally show ?thesis by simp
  qed
  from assms(2) have "2 ^ 52 * ?u \<le> x"
    by (simp only: lo)
  with u have "2 ^ 52 \<le> x / ?u"
    by (simp add: pos_le_divide_eq)
  then have "of_int (2 ^ 52) \<le> x / ?u" by simp
  then have a: "2 ^ 52 \<le> round_half_even (x / ?u)"
    by (rule round_half_even_ge)
  from assms(3) have "x < 2 ^ 53 * ?u"
    by (simp only: hi)
  with u have "x / ?u \<le> 2 ^ 53"
    by (simp add: pos_divide_le_eq)
  then have "x / ?u \<le> of_int (2 ^ 53)" by simp
  then have b: "round_half_even (x / ?u) \<le> 2 ^ 53"
    by (rule round_half_even_le)
  have t: "to_double x = of_int (round_half_even (x / ?u)) * ?u"
    using assms by (rule to_double_binade)
  from a have "(2 ^ 52 :: real) \<le> of_int (round_half_even (x / ?u))"
    by (metis of_int_le_iff of_int_numeral of_int_power)
  with u have "2 ^ 52 * ?u \<le> of_int (round_half_even (x / ?u)) * ?u"
    by (intro mult_right_mono) simp_all
  then show "2 powr of_int e \<le> to_double x"
    unfolding t lo .
  from b have "of_int (round_half_even (x / ?u)) \<le> (2 ^ 53 :: real)"
    by (metis of_int_le_iff of_int_numeral of_int_power)
  with u have "of_int (round_half_even (x / ?u)) * ?u \<le> 2 ^ 53 * ?u"
    by (intro mult_right_mono) simp_all
  then show "to_double x \<le> 2 powr of_int (e + 1)"
    unfolding t hi .
qed

lemma binade_exists:
  assumes "0 < x"
  shows "2 powr of_int \<lfloor>log 2 x\<rfloor> \<le> x" and "x < 2 powr of_int (\<lfloor>log 2 x\<rfloor> + 1)"
  using assms floor_log_eq_powr_iff [of x 2 "\<lfloor>log 2 x\<rfloor>"] by simp_all

lemma round_half_even_numeral [simp]: "round_half_even (numeral n) = numeral n"
  by (metis of_int_numeral round_half_even_of_int)

lemma to_double_1 [simp]: "to_double 1 = 1"
  using to_double_large [of 0 1] by simp

lemma to_double_le_1:
  assumes "0 \<le> x" and "x \<le> 1"
  shows "to_double x \<le> 1"
proof -
  consider "x = 0" | "x = 1" | "0 < x" "x < 1"
    using assms by fastforce
  then show ?thesis
  proof cases
    case 1
    then show ?thesis by simp
  next
    case 2
    then show ?thesis by simp
  next
    case 3
    let ?e = "\<lfloor>log 2 x\<rfloor>"
    from 3 have "log 2 x < 0" by simp
    then have "?e \<le> - 1" by (simp add: floor_le_iff)
    then have "?e + 1 \<le> 0" by simp
    then have "(2::real) powr of_int (?e + 1) \<le> 2 powr 0"
      by (intro powr_mono) simp_all
    moreover have "to_double x \<le> 2 powr of_int (?e + 1)"
      using to_double_bounds(2) [OF 3(1) binade_exists [OF 3(1)]] .
    ultimately show ?thesis by simp
  qed
qed

lemma to_double_ge_1:
  assumes "1 \<le> x"
  shows "1 \<le> to_double x"
proof -
  from assms have x: "0 < x" by simp
  let ?e = "\<lfloor>log 2 x\<rfloor>"
  from assms have "0 \<le> log 2 x" by simp
  then have "0 \<le> ?e" by simp
  then have "(2::real) powr 0 \<le> 2 powr of_int ?e"
    by (intro powr_mono) simp_all
  moreover have "2 powr of_int ?e \<le> to_double x"
    using to_double_bounds(1) [OF x binade_exists [OF x]] .
  ultimately show ?thesis by simp
qed

lemma py_round_range:
  assumes "0 \<le> x" and "x \<le> 1"
  shows "0 \<le> py_round x 2" and "py_round x 2 \<le> 1"
proof -
  from assms have "of_int 0 \<le> x * 10 ^ 2" "x * 10 ^ 2 \<le> of_int 100"
    by simp_all
  then have "0 \<le> round_half_even (x * 10 ^ 2)" "round_half_even (x * 10 ^ 2) \<le> 100"
    by (simp_all only: round_half_even_ge round_half_even_le)
  then have "0 \<le> (of_int (round_half_even (x * 10 ^ 2)) / 10 ^ 2 :: real)"
    "(of_int (round_half_even (x * 10 ^ 2)) / 10 ^ 2 :: real) \<le> 1"
    by simp_all
  then show "0 \<le> py_round x 2" and "py_round x 2 \<le> 1"
    unfolding py_round_def by (simp_all only: to_double_nonneg to_double_le_1)
qed

lemma confidence_range: "0 \<le> calculate_confidence r \<and> calculate_confidence r \<le> 1"
proof -
  let ?p = "float_mul (float_of_nat (length (tool_calls r))) (to_double (15 / 100))"
  let ?q = "min (to_double (4 / 10)) (true_div (length (message r)) 2000)"
  have "0 \<le> ?p"
    unfolding float_mul_def float_of_nat_def
    by (intro to_double_nonneg mult_nonneg_nonneg) simp_all
  moreover have "0 \<le> ?q"
    unfolding true_div_def by (simp add: to_double_nonneg)
  ultimately have "0 \<le> float_add ?p ?q"
    unfolding float_add_def by (intro to_double_nonneg) simp
  then have "0 \<le> min 1 (float_add ?p ?q)" "min 1 (float_add ?p ?q) \<le> 1"
    by simp_all
  from py_round_range [OF this] show ?thesis
    by (simp add: calculate_confidence_def Let_def)
qed

lemma to_double_04: "to_double (4 / 10) = 3602879701896397 / 2 ^ 53"
proof -
  have "round_half_even (4 / 10 * 2 ^ 54) = 7205759403792793 + 1"
    by (rule round_half_even_up) simp_all
  then show ?thesis
    using to_double_small [of 2 "4 / 10"] by simp
qed

lemma to_double_085: "to_double (85 / 100) = 7656119366529843 / 2 ^ 53"
proof -
  have "round_half_even (85 / 100 * 2 ^ 53) = 7656119366529843"
    by (rule round_half_even_down) simp_all
  then show ?thesis
    using to_double_small [of 1 "85 / 100"] by simp
qed

lemma float_of_nat_3: "float_of_nat 3 = 3"
  using to_double_large [of 1 3] by (simp add: float_of_nat_def)

lemma float_of_nat_1: "float_of_nat 1 = 1"
  by (simp add: float_of_nat_def)

lemma float_mul_3: "float_mul 3 (5404319552844595 / 2 ^ 55) = 2026619832316723 / 2 ^ 52"
proof -
  have "round_half_even (3 * (5404319552844595 / 2 ^ 55) * 2 ^ 54) = 8106479329266892"
    using round_half_even_tie [of "3 * (5404319552844595 / 2 ^ 55) * 2 ^ 54" 8106479329266892]
    by simp
  then show ?thesis
    using to_double_small [of 2 "3 * (5404319552844595 / 2 ^ 55)"]
    by (simp add: float_mul_def)
qed

lemma float_mul_1: "float_mul 1 (5404319552844595 / 2 ^ 55) = 5404319552844595 / 2 ^ 55"
  using to_double_small [of 3 "5404319552844595 / 2 ^ 55"]
  by (simp add: float_mul_def)

lemma true_div_1000: "true_div 1000 2000 = 1 / 2"
  using to_double_small [of 1 "1 / 2"] by (simp add: true_div_def)

lemma true_div_10: "true_div 10 2000 = 5764607523034235 / 2 ^ 60"
proof -
  have "round_half_even (1 / 200 * 2 ^ 60) = 5764607523034234 + 1"
    by (rule round_half_even_up) simp_all
  then show ?thesis
    using to_double_small [of 8 "1 / 200"] by (simp add: true_div_def)
qed

lemma float_add_3: "float_add (2026619832316723 / 2 ^ 52) (3602879701896397 / 2 ^ 53)
    = 7656119366529843 / 2 ^ 53"
  using to_double_small [of 1 "2026619832316723 / 2 ^ 52 + 3602879701896397 / 2 ^ 53"]
  by (simp add: float_add_def)

lemma float_add_1: "float_add (5404319552844595 / 2 ^ 55) (5764607523034235 / 2 ^ 60)
    = 5584463537939415 / 2 ^ 55"
proof -
  have "round_half_even ((5404319552844595 / 2 ^ 55 + 5764607523034235 / 2 ^ 60) * 2 ^ 55)
      = 5584463537939414 + 1"
    by (rule round_half_even_up) simp_all
  then show ?thesis
    using to_double_small [of 3 "5404319552844595 / 2 ^ 55 + 5764607523034235 / 2 ^ 60"]
    by (simp add: float_add_def)
qed

lemma py_round_085: "py_round (7656119366529843 / 2 ^ 53) 2 = to_double (85 / 100)"
proof -
  have "round_half_even (7656119366529843 / 2 ^ 53 * 10 ^ 2) = 84 + 1"
    by (rule round_half_even_up) simp_all
  then show ?thesis
    by (simp add: py_round_def)
qed

lemma py_round_0155: "py_round (5584463537939415 / 2 ^ 55) 2 = to_double (15 / 100)"
proof -
  have "round_half_even (5584463537939415 / 2 ^ 55 * 10 ^ 2) = 15"
    by (rule round_half_even_down) simp_all
  then show ?thesis
    by (simp add: py_round_def)
qed

lemma float_min_3: "min (3602879701896397 / 2 ^ 53) (1 / 2 :: real) = 3602879701896397 / 2 ^ 53"
  "min 1 (7656119366529843 / 2 ^ 53 :: real) = 7656119366529843 / 2 ^ 53"
  by simp_all

lemma float_min_1: "min (3602879701896397 / 2 ^ 53) (5764607523034235 / 2 ^ 60 :: real)
     = 5764607523034235 / 2 ^ 60"
  "min 1 (5584463537939415 / 2 ^ 55 :: real) = 5584463537939415 / 2 ^ 55"
  by simp_all

lemma confidence_example:
  assumes "length (tool_calls r) = 3" and "length (message r) = 1000"
  shows "calculate_confidence r = to_double (85 / 100)"
  unfolding calculate_confidence_def Let_def assms float_of_nat_3 to_double_015 to_double_04 float_mul_3 true_div_1000
    float_min_3 float_add_3 py_round_085 ..

lemma confidence_tie:
  assumes "length (tool_calls r) = 1" and "length (message r) = 10"
  shows "calculate_confidence r = to_double (15 / 100)"
  unfolding calculate_confidence_def Let_def assms float_of_nat_1 to_double_015 to_double_04 float_mul_1 true_div_10
    float_min_1 float_add_1 py_round_0155 ..

lemma py_round_two_decimals:
  assumes "0 \<le> x" and "x \<le> 1"
  shows "\<exists>k. 0 \<le> k \<and> k \<le> 100 \<and> py_round x 2 = to_double (of_int k / 100)"
proof -
  from assms have "of_int 0 \<le> x * 10 ^ 2" "x * 10 ^ 2 \<le> of_int 100"
    by simp_all
  then have "0 \<le> round_half_even (x * 10 ^ 2)" "round_half_even (x * 10 ^ 2) \<le> 100"
    by (simp_all only: round_half_even_ge round_half_even_le)
  moreover have "py_round x 2 = to_double (of_int (round_half_even (x * 10 ^ 2)) / 100)"
    by (simp add: py_round_def)
  ultimately show ?thesis by blast
qed

lemma confidence_two_decimals:
  "\<exists>k. 0 \<le> k \<and> k \<le> 100 \<and> calculate_confidence r = to_double (of_int k / 100)"
proof -
  let ?p = "float_mul (float_of_nat (length (tool_calls r))) (to_double (15 / 100))"
  let ?q = "min (to_double (4 / 10)) (true_div (length (message r)) 2000)"
  have "0 \<le> ?p"
    unfolding float_mul_def float_of_nat_def
    by (intro to_double_nonneg mult_nonneg_nonneg) simp_all
  moreover have "0 \<le> ?q"
    unfolding true_div_def by (simp add: to_double_nonneg)
  ultimately have "0 \<le> float_add ?p ?q"
    unfolding float_add_def by (intro to_double_nonneg) simp
  then have "0 \<le> min 1 (float_add ?p ?q)" "min 1 (float_add ?p ?q) \<le> 1"
    by simp_all
  from py_round_two_decimals [OF this] show ?thesis
    by (simp add: calculate_confidence_def Let_def)
qed

lemma to_double_016: "to_double (16 / 100) = 5764607523034235 / 2 ^ 55"
proof -
  have "round_half_even (16 / 100 * 2 ^ 55) = 5764607523034234 + 1"
    by (rule round_half_even_up) simp_all
  then show ?thesis
    using to_double_small [of 3 "16 / 100"] by simp
qed

lemma rounded_formula_tie: "rounded_formula 1 10 = to_double (16 / 100)"
proof -
  have "confidence_formula 1 10 * 10 ^ 2 = of_int 15 + 1 / 2"
    by (simp add: confidence_formula_def)
  from round_half_even_tie [OF this]
  have "round_half_even (confidence_formula 1 10 * 10 ^ 2) = 16"
    by simp
  then show ?thesis
    by (simp add: rounded_formula_def)
qed

lemma round_half_even_error: "\<bar>of_int (round_half_even y) - y\<bar> \<le> 1 / 2"
proof -
  have "of_int \<lfloor>y\<rfloor> \<le> y" "y < of_int \<lfloor>y\<rfloor> + 1"
    by linarith+
  then show ?thesis
    by (auto simp: round_half_even_def Let_def)
qed

lemma binade_ulp: "(2::real) powr of_int e = 2 ^ 52 * 2 powr of_int (e - 52)"
proof -
  have "real_of_int e = 52 + real_of_int (e - 52)" by simp
  then have "(2::real) powr of_int e = 2 powr (52 + of_int (e - 52))" by (simp only:)
  also have "\<dots> = 2 powr 52 * 2 powr of_int (e - 52)" by (rule powr_add)
  finally show ?thesis by simp
qed

lemma to_double_error:
  assumes "0 \<le> x"
  shows "\<bar>to_double x - x\<bar> \<le> x / 2 ^ 53"
proof (cases "x = 0")
  case True
  then show ?thesis by simp
next
  case False
  with assms have x: "0 < x" by simp
  let ?e = "\<lfloor>log 2 x\<rfloor>"
  let ?u = "2 powr of_int (?e - 52) :: real"
  have u: "0 < ?u" by simp
  have t: "to_double x = of_int (round_half_even (x / ?u)) * ?u"
    using x binade_exists [OF x] by (rule to_double_binade)
  have "to_double x - x = (of_int (round_half_even (x / ?u)) - x / ?u) * ?u"
    using u by (simp add: t left_diff_distrib)
  then have "\<bar>to_double x - x\<bar> = \<bar>of_int (round_half_even (x / ?u)) - x / ?u\<bar> * ?u"
    using u by (simp add: abs_mult)
  also have "\<dots> \<le> 1 / 2 * ?u"
    using u round_half_even_error [of "x / ?u"] by (intro mult_right_mono) simp_all
  finally have a: "\<bar>to_double x - x\<bar> \<le> ?u / 2" by simp
  have "2 ^ 52 * ?u \<le> x"
    using binade_exists(1) [OF x] by (simp only: binade_ulp [of ?e])
  then have "?u / 2 \<le> x / 2 ^ 53" by simp
  with a show ?thesis by linarith
qed

lemma to_double_ge_half:
  assumes "1 / 2 \<le> x"
  shows "1 / 2 \<le> to_double x"
proof -
  from assms have x: "0 < x" by simp
  let ?e = "\<lfloor>log 2 x\<rfloor>"
  have "(2::real) powr (- 1) \<le> x"
    using assms by (simp add: powr_minus)
  then have "- 1 \<le> log 2 x"
    using x by (simp add: le_log_iff)
  then have "- 1 \<le> ?e" by (simp add: le_floor_iff)
  then have "(2::real) powr (- 1) \<le> 2 powr of_int ?e"
    by (intro powr_mono) simp_all
  moreover have "2 powr of_int ?e \<le> to_double x"
    using to_double_bounds(1) [OF x binade_exists [OF x]] .
  ultimately show ?thesis by (simp add: powr_minus)
qed

lemma float_of_nat_small: "n \<le> 6 \<Longrightarrow> float_of_nat n = of_nat n"
proof -
  assume "n \<le> 6"
  then consider "n = 0" | "n = 1" | "n = 2" | "n = 3" | "n = 4" | "n = 5" | "n = 6"
    by linarith
  then show ?thesis
  proof cases
    case 1
    then show ?thesis by (simp add: float_of_nat_def)
  next
    case 2
    then show ?thesis by (simp add: float_of_nat_def)
  next
    case 3
    then show ?thesis using to_double_large [of 1 2] by (simp add: float_of_nat_def)
  next
    case 4
    then show ?thesis using to_double_large [of 1 3] by (simp add: float_of_nat_def)
  next
    case 5
    then show ?thesis using to_double_large [of 2 4] by (simp add: float_of_nat_def)
  next
    case 6
    then show ?thesis using to_double_large [of 2 5] by (simp add: float_of_nat_def)
  next
    case 7
    then show ?thesis using to_double_large [of 2 6] by (simp add: float_of_nat_def)
  qed
qed

lemma to_double_error_num:
  "0 \<le> x \<Longrightarrow> \<bar>to_double x - x\<bar> \<le> x / 9007199254740992"
  using to_double_error [of x] by simp

lemma py_round_error:
  assumes "0 \<le> x" and "x \<le> 1"
  shows "\<bar>py_round x 2 - x\<bar> \<le> 1 / 200 + 1 / 2 ^ 53"
proof -
  define k where "k = (of_int (round_half_even (x * 10 ^ 2)) :: real)"
  define t where "t = to_double (k / 100)"
  from assms have "of_int 0 \<le> x * 10 ^ 2" "x * 10 ^ 2 \<le> of_int 100"
    by simp_all
  then have "0 \<le> round_half_even (x * 10 ^ 2)" "round_half_even (x * 10 ^ 2) \<le> 100"
    by (simp_all only: round_half_even_ge round_half_even_le)
  then have k: "0 \<le> k" "k \<le> 100"
    by (simp_all add: k_def)
  have e: "\<bar>k - x * 100\<bar> \<le> 1 / 2"
    using round_half_even_error [of "x * 10 ^ 2"] by (simp add: k_def)
  have t: "\<bar>t - k / 100\<bar> \<le> k / 100 / 9007199254740992"
    unfolding t_def using k by (intro to_double_error_num) simp
  from k e t have "\<bar>t - x\<bar> \<le> 1 / 200 + 1 / 9007199254740992"
    by linarith
  moreover have "py_round x 2 = t"
    by (simp add: py_round_def k_def t_def)
  ultimately show ?thesis
    by simp
qed

lemma float_mul_error:
  assumes "n \<le> 6"
  shows "\<bar>float_mul (float_of_nat n) (to_double (15 / 100)) - of_nat n * (15 / 100)\<bar> \<le> 1 / 2 ^ 51"
    and "0 \<le> float_mul (float_of_nat n) (to_double (15 / 100))"
proof -
  define x where "x = real n"
  define p where "p = to_double (x * (5404319552844595 / 2 ^ 55))"
  from assms have x: "0 \<le> x" "x \<le> 6"
    by (simp_all add: x_def)
  have p: "float_mul (float_of_nat n) (to_double (15 / 100)) = p"
    by (simp only: float_of_nat_small [OF assms] to_double_015 float_mul_def x_def p_def)
  have e: "\<bar>p - x * (5404319552844595 / 36028797018963968)\<bar>
      \<le> x * (5404319552844595 / 36028797018963968) / 9007199254740992"
    using to_double_error_num [of "x * (5404319552844595 / 2 ^ 55)"] x by (simp add: p_def)
  from e x have "\<bar>p - x * (15 / 100)\<bar> \<le> 1 / 2251799813685248"
    by linarith
  then show "\<bar>float_mul (float_of_nat n) (to_double (15 / 100)) - of_nat n * (15 / 100)\<bar>
      \<le> 1 / 2 ^ 51"
    unfolding p x_def by simp
  show "0 \<le> float_mul (float_of_nat n) (to_double (15 / 100))"
    unfolding p p_def using x by (intro to_double_nonneg) simp
qed

lemma float_min_error:
  "\<bar>min (to_double (4 / 10)) (true_div m 2000) - min (4 / 10) (of_nat m / 2000)\<bar> \<le> 1 / 2 ^ 52"
  "0 \<le> min (to_double (4 / 10)) (true_div m 2000)"
  "min (to_double (4 / 10)) (true_div m 2000) \<le> 1 / 2"
proof -
  define x where "x = real m / 2000"
  define t where "t = to_double x"
  have tm: "true_div m 2000 = t"
    by (simp add: true_div_def x_def t_def)
  have d: "to_double (4 / 10) = 3602879701896397 / 9007199254740992"
    unfolding to_double_04 by simp
  have x0: "0 \<le> x"
    by (simp add: x_def)
  then have t0: "0 \<le> t"
    unfolding t_def by (rule to_double_nonneg)
  then show "0 \<le> min (to_double (4 / 10)) (true_div m 2000)"
    unfolding tm d by simp
  show "min (to_double (4 / 10)) (true_div m 2000) \<le> 1 / 2"
    unfolding tm d by simp
  have "\<bar>min (3602879701896397 / 9007199254740992) t - min (4 / 10) x\<bar>
      \<le> 1 / 4503599627370496"
  proof (cases "1 / 2 \<le> x")
    case True
    then have "1 / 2 \<le> t"
      unfolding t_def by (rule to_double_ge_half)
    with True show ?thesis
      by linarith
  next
    case False
    have "\<bar>t - x\<bar> \<le> x / 9007199254740992"
      unfolding t_def using x0 by (rule to_double_error_num)
    with False x0 show ?thesis
      by linarith
  qed
  then show "\<bar>min (to_double (4 / 10)) (true_div m 2000) - min (4 / 10) (of_nat m / 2000)\<bar>
      \<le> 1 / 2 ^ 52"
    unfolding tm d x_def by simp
qed

lemma confidence_saturated:
  assumes "7 \<le> n_calls" and "length (tool_calls r) = n_calls"
  shows "calculate_confidence r = 1"
    and "confidence_formula n_calls m = 1"
proof -
  define x where "x = real n_calls"
  define a where "a = float_of_nat n_calls"
  from assms(1) have x: "7 \<le> x"
    by (simp add: x_def)
  have "\<bar>a - x\<bar> \<le> x / 9007199254740992"
    unfolding a_def x_def float_of_nat_def by (intro to_double_error_num) simp
  with x have a: "699 / 100 \<le> a"
    by linarith
  have "1 \<le> 699 / 100 * (5404319552844595 / 2 ^ 55 :: real)"
    by simp
  also have "\<dots> \<le> a * (5404319552844595 / 2 ^ 55)"
    using a by (intro mult_right_mono) simp_all
  finally have "1 \<le> float_mul a (to_double (15 / 100))"
    unfolding float_mul_def to_double_015 by (rule to_double_ge_1)
  moreover have "0 \<le> min (to_double (4 / 10)) (true_div (length (message r)) 2000)"
    by (rule float_min_error(2))
  ultimately have
    "1 \<le> float_mul a (to_double (15 / 100)) +
           min (to_double (4 / 10)) (true_div (length (message r)) 2000)"
    by linarith
  then have "1 \<le> float_add (float_mul a (to_double (15 / 100)))
           (min (to_double (4 / 10)) (true_div (length (message r)) 2000))"
    unfolding float_add_def by (rule to_double_ge_1)
  then have "min 1 (float_add (float_mul a (to_double (15 / 100)))
           (min (to_double (4 / 10)) (true_div (length (message r)) 2000))) = 1"
    by simp
  then show "calculate_confidence r = 1"
    by (simp add: calculate_confidence_def Let_def assms(2) py_round_def a_def)
  have "0 \<le> min (4 / 10) (real m / 2000)"
    by simp
  with x have "1 \<le> x * (15 / 100) + min (4 / 10) (real m / 2000)"
    by linarith
  then show "confidence_formula n_calls m = 1"
    by (simp add: confidence_formula_def x_def)
qed

lemma confidence_error:
  "\<bar>calculate_confidence r - confidence_formula (length (tool_calls r)) (length (message r))\<bar>
     \<le> 1 / 200 + 1 / 2 ^ 49"
proof (cases "7 \<le> length (tool_calls r)")
  case True
  have "calculate_confidence r = 1"
    using True by (rule confidence_saturated(1)) simp
  moreover have "confidence_formula (length (tool_calls r)) (length (message r)) = 1"
    using True by (rule confidence_saturated(2)) simp
  ultimately show ?thesis
    by simp
next
  case False
  then have n: "length (tool_calls r) \<le> 6" by simp
  define x where "x = real (length (tool_calls r)) * (15 / 100)"
  define y where "y = min (4 / 10) (real (length (message r)) / 2000)"
  define p where "p = float_mul (float_of_nat (length (tool_calls r))) (to_double (15 / 100))"
  define q where "q = min (to_double (4 / 10)) (true_div (length (message r)) 2000)"
  define s where "s = float_add p q"
  define c where "c = py_round (min 1 s) 2"
  have p: "\<bar>p - x\<bar> \<le> 1 / 2251799813685248" "0 \<le> p"
    using float_mul_error [OF n] by (simp_all add: p_def x_def)
  have q: "\<bar>q - y\<bar> \<le> 1 / 4503599627370496" "0 \<le> q" "q \<le> 1 / 2"
    using float_min_error [of "length (message r)"] by (simp_all add: q_def y_def)
  from n have "real (length (tool_calls r)) \<le> 6" by simp
  then have x: "x \<le> 9 / 10"
    by (simp add: x_def)
  have "\<bar>s - (p + q)\<bar> \<le> (p + q) / 9007199254740992"
    unfolding s_def float_add_def using p(2) q(2) by (intro to_double_error_num) simp
  then have s: "\<bar>s - (p + q)\<bar> \<le> p / 9007199254740992 + q / 9007199254740992"
    by (simp only: add_divide_distrib)
  have s0: "0 \<le> s"
    unfolding s_def float_add_def using p(2) q(2) by (intro to_double_nonneg) simp
  then have m: "0 \<le> min 1 s" "min 1 s \<le> 1" by simp_all
  have f: "confidence_formula (length (tool_calls r)) (length (message r)) = min 1 (x + y)"
    by (simp only: confidence_formula_def x_def y_def)
  have c: "\<bar>c - min 1 s\<bar> \<le> 1 / 200 + 1 / 9007199254740992"
    unfolding c_def using py_round_error [OF m] by simp
  from p q have pq: "\<bar>(p + q) - (x + y)\<bar> \<le> 3 / 4503599627370496"
    by linarith
  from p x q have "p + q \<le> 3 / 2"
    by linarith
  with s p(2) q(2) have "\<bar>s - (p + q)\<bar> \<le> 3 / 18014398509481984"
    by linarith
  with pq have "\<bar>s - (x + y)\<bar> \<le> 1 / 1125899906842624"
    by linarith
  then have "\<bar>min 1 s - min 1 (x + y)\<bar> \<le> 1 / 1125899906842624"
    by linarith
  with c have "\<bar>c - min 1 (x + y)\<bar> \<le> 1 / 200 + 1 / 562949953421312"
    by linarith
  moreover have "calculate_confidence r = c"
    by (simp add: calculate_confidence_def Let_def c_def s_def p_def q_def)
  ultimately show ?thesis
    unfolding f by simp
qed

section \<open>The confidence of an investigation\<close>

text \<open>
  Claim C6, as the program has it. For every result of the engine, the confidence is
  min(1.0, toolCallCount*0.15 + min(0.4, messageLength/2000)) computed in double
  precision and rounded to two decimals: it is the double nearest to k/100 for a whole
  number k from 0 to 100, so it lies in [0.0, 1.0]; it differs from the value of the
  formula over the real numbers by at most 0.005, up to a rounding error below
  \<open>1 / 2 ^ 49\<close>; and with 3 tool calls and a message of 1000 characters it is the double
  0.85.
\<close>

theorem confidence_rounded:
  "0 \<le> calculate_confidence r \<and> calculate_confidence r \<le> 1 \<and>
   (\<exists>k. 0 \<le> k \<and> k \<le> 100 \<and> calculate_confidence r = to_double (of_int k / 100)) \<and>
   \<bar>calculate_confidence r - confidence_formula (length (tool_calls r)) (length (message r))\<bar>
     \<le> 1 / 200 + 1 / 2 ^ 49 \<and>
   (length (tool_calls r) = 3 \<and> length (message r) = 1000 \<longrightarrow>
      calculate_confidence r = to_double (85 / 100))"
  using confidence_range [of r] confidence_two_decimals [of r] confidence_example [of r]
    confidence_error [of r]
  by blast

theorem confidence_rounded_witness:
  "length (tool_calls (example_result 3 1000)) = 3 \<and>
   length (message (example_result 3 1000)) = 1000 \<and>
   calculate_confidence (example_result 3 1000) = to_double (85 / 100) \<and>
   to_double (85 / 100) = 7656119366529843 / 2 ^ 53"
proof -
  have l: "length (tool_calls (example_result 3 1000)) = 3 \<and>
           length (message (example_result 3 1000)) = 1000"
    by (simp add: example_result_def)
  with confidence_rounded [of "example_result 3 1000"]
  have "calculate_confidence (example_result 3 1000) = to_double (85 / 100)"
    by blast
  with l to_double_085 show ?thesis
    by blast
qed

text \<open>
  Claim C6 as stated fails when the formula is read over the real numbers. With 1 tool
  call and a message of 10 characters the formula is exactly 0.155, which rounded to two
  decimals is 0.16; the program computes the double below 0.155 and returns 0.15.
\<close>

theorem confidence_rounded_counterexample:
  "calculate_confidence (example_result 1 10) = to_double (15 / 100) \<and>
   confidence_formula 1 10 = 155 / 1000 \<and>
   rounded_formula 1 10 = to_double (16 / 100) \<and>
   calculate_confidence (example_result 1 10) \<noteq> rounded_formula 1 10"
proof -
  have c: "calculate_confidence (example_result 1 10) = to_double (15 / 100)"
    by (rule confidence_tie) (simp_all add: example_result_def)
  have f: "confidence_formula 1 10 = 155 / 1000"
    by (simp add: confidence_formula_def)
  have "to_double (15 / 100) \<noteq> to_double (16 / 100)"
    unfolding to_double_015 to_double_016 by simp
  with c f rounded_formula_tie show ?thesis
    by simp
qed

section \<open>The severity mapping\<close>

text \<open>
  Claim C7. The severity-to-priority lookup of ticket creation is total on strings: it
  never raises, and it yields P1 for "critical", P2 for "high", P3 for "warning" and P4
  for every other severity.
\<close>

theorem severity_priority_total:
  "severity_priority sev =
     Inr (if sev = ''critical'' then ''P1''
          else if sev = ''high'' then ''P2''
          else if sev = ''warning'' then ''P3''
          else ''P4'')"
  by (simp add: severity_priority_def dict_index_def dict_get_def SEVERITY_MAPPING_def)

lemma severity_priority_cases:
  "severity_priority ''critical'' = Inr ''P1''" "severity_priority ''high'' = Inr ''P2''"
  by (simp_all add: severity_priority_def dict_index_def dict_get_def SEVERITY_MAPPING_def)

section \<open>The webhook\<close>

lemma severity_text: "severity_is_text a \<Longrightarrow> \<exists>s. alert_severity a = Inr s"
  by (cases "dict_get (labels a) ''severity'' (JString ''info'')")
     (simp_all add: severity_is_text_def alert_severity_def py_lower_def)

lemma webhook_loop_filter:
  assumes "list_all severity_is_text as"
  shows "webhook_loop payload as processed tasks =
     (Inr (processed @
        map (\<lambda>a. queued_entry a (if alert_severity a = Inr ''critical'' then ''critical'' else ''high''))
          (filter (\<lambda>a. alert_severity a = Inr ''critical'' \<or> alert_severity a = Inr ''high'') as)),
      tasks @ map (alert_task payload)
        (filter (\<lambda>a. alert_severity a = Inr ''critical'' \<or> alert_severity a = Inr ''high'') as))"
  using assms
proof (induction as arbitrary: processed tasks)
  case Nil
  then show ?case by simp
next
  case (Cons a as)
  from Cons.prems have "severity_is_text a" and rest: "list_all severity_is_text as"
    by simp_all
  then obtain s where s: "alert_severity a = Inr s"
    using severity_text by blast
  show ?case
    by (auto simp: s Cons.IH [OF rest])
qed

lemma webhook_loop_tasks:
  "set (snd (webhook_loop payload as processed tasks)) \<subseteq>
     set tasks \<union>
     alert_task payload `
       {a \<in> set as. alert_severity a = Inr ''critical'' \<or> alert_severity a = Inr ''high''}"
proof (induction as arbitrary: processed tasks)
  case Nil
  then show ?case by simp
next
  case (Cons a as)
  show ?case
  proof (cases "alert_severity a")
    case (Inl e)
    then show ?thesis by simp
  next
    case (Inr s)
    show ?thesis
    proof (cases "s = ''critical'' \<or> s = ''high''")
      case True
      with Inr Cons.IH [of "processed @ [queued_entry a s]" "tasks @ [alert_task payload a]"]
      show ?thesis by auto
    next
      case False
      with Inr Cons.IH [of processed tasks] show ?thesis by auto
    qed
  qed
qed

text \<open>
  Claim C4, as the program has it. For a payload whose status is not "firing", the
  webhook schedules no background task (the task list is returned as it was), does not
  raise, and answers with status "ignored"; the reason is the text "Alert status is "
  followed by the payload's status, not the bare status.
\<close>

theorem webhook_ignored:
  "status payload \<noteq> ''firing'' \<Longrightarrow>
   grafana_webhook payload tasks =
     (Inr (JObject [(''status'', JString ''ignored''),
                    (''reason'', JString (''Alert status is '' @ status payload))]),
      tasks)"
  by (simp add: grafana_webhook_def)

theorem webhook_ignored_witness:
  "status (example_payload ''resolved''
      [example_alert ''f1'' [(''severity'', JString ''critical'')]]) \<noteq> ''firing'' \<and>
   grafana_webhook
     (example_payload ''resolved'' [example_alert ''f1'' [(''severity'', JString ''critical'')]])
     [] =
     (Inr (JObject [(''status'', JString ''ignored''),
                    (''reason'', JString ''Alert status is resolved'')]),
      [])"
  using webhook_ignored
    [of "example_payload ''resolved'' [example_alert ''f1'' [(''severity'', JString ''critical'')]]"
      "[]"]
  by (simp add: example_payload_def)

text \<open>
  Claim C4 as stated fails: for a payload with status "resolved" the reason field of the
  answer is "Alert status is resolved", not the payload's status.
\<close>

theorem webhook_ignored_reason_counterexample:
  "fst (grafana_webhook (example_payload ''resolved'' []) []) =
     Inr (JObject [(''status'', JString ''ignored''),
                   (''reason'', JString ''Alert status is resolved'')]) \<and>
   json_field (JObject [(''status'', JString ''ignored''),
                        (''reason'', JString ''Alert status is resolved'')]) ''reason''
     \<noteq> Some (JString (status (example_payload ''resolved'' [])))"
  by (simp add: grafana_webhook_def example_payload_def)

text \<open>
  Claim C5, as the program has it. For a firing payload in which the severity label of
  every alert is a string or is missing, the handler does not raise, and the severity of
  each alert is its "severity" label (default "info") in lower case. The alerts whose
  severity is "critical" or "high" are exactly those for which a background task is added
  and an entry with fingerprint, severity and status "queued_for_investigation" is
  listed, in the order of the payload; every other alert gets neither. The answer is
  built without running any task.
\<close>

theorem webhook_firing:
  assumes "status payload = ''firing''"
    and "list_all severity_is_text (alerts payload)"
  shows "grafana_webhook payload tasks =
     (Inr (JObject
        [(''status'', JString ''received''),
         (''processed_count'',
          JInt (int (length
            (filter (\<lambda>a. alert_severity a = Inr ''critical'' \<or> alert_severity a = Inr ''high'')
               (alerts payload))))),
         (''alerts'',
          JArray (map (\<lambda>a. JObject
                         [(''fingerprint'', JString (fingerprint a)),
                          (''severity'',
                           JString (if alert_severity a = Inr ''critical'' then ''critical''
                                    else ''high'')),
                          (''status'', JString ''queued_for_investigation'')])
            (filter (\<lambda>a. alert_severity a = Inr ''critical'' \<or> alert_severity a = Inr ''high'')
               (alerts payload))))]),
      tasks @ map (alert_task payload)
                (filter (\<lambda>a. alert_severity a = Inr ''critical'' \<or> alert_severity a = Inr ''high'')
                   (alerts payload))) \<and>
    (\<forall>a\<in>set (alerts payload).
       alert_severity a =
         Inr (lower (case dict_get (labels a) ''severity'' (JString ''info'') of
                       JString s \<Rightarrow> s | _ \<Rightarrow> [])))"
proof
  show "grafana_webhook payload tasks =
     (Inr (JObject
        [(''status'', JString ''received''),
         (''processed_count'',
          JInt (int (length
            (filter (\<lambda>a. alert_severity a = Inr ''critical'' \<or> alert_severity a = Inr ''high'')
               (alerts payload))))),
         (''alerts'',
          JArray (map (\<lambda>a. JObject
                         [(''fingerprint'', JString (fingerprint a)),
                          (''severity'',
                           JString (if alert_severity a = Inr ''critical'' then ''critical''
                                    else ''high'')),
                          (''status'', JString ''queued_for_investigation'')])
            (filter (\<lambda>a. alert_severity a = Inr ''critical'' \<or> alert_severity a = Inr ''high'')
               (alerts payload))))]),
      tasks @ map (alert_task payload)
                (filter (\<lambda>a. alert_severity a = Inr ''critical'' \<or> alert_severity a = Inr ''high'')
                   (alerts payload)))"
    using assms(1) by (simp add: grafana_webhook_def webhook_loop_filter [OF assms(2)] queued_entry_def)
  show "\<forall>a\<in>set (alerts payload).
       alert_severity a =
         Inr (lower (case dict_get (labels a) ''severity'' (JString ''info'') of
                       JString s \<Rightarrow> s | _ \<Rightarrow> []))"
  proof
    fix a
    assume "a \<in> set (alerts payload)"
    with assms(2) have "severity_is_text a"
      by (simp add: list_all_iff)
    then show "alert_severity a =
         Inr (lower (case dict_get (labels a) ''severity'' (JString ''info'') of
                       JString s \<Rightarrow> s | _ \<Rightarrow> []))"
      by (cases "dict_get (labels a) ''severity'' (JString ''info'')")
         (simp_all add: severity_is_text_def alert_severity_def py_lower_def)
  qed
qed

theorem webhook_firing_witness:
  "status (example_payload ''firing''
      [example_alert ''f1'' [(''severity'', JString ''CRITICAL'')],
       example_alert ''f2'' [(''severity'', JString ''warning'')],
       example_alert ''f3'' [(''alertname'', JString ''Disk'')],
       example_alert ''f4'' [(''alertname'', JString ''Mem''), (''severity'', JString ''High'')]])
     = ''firing'' \<and>
   list_all severity_is_text
     [example_alert ''f1'' [(''severity'', JString ''CRITICAL'')],
      example_alert ''f2'' [(''severity'', JString ''warning'')],
      example_alert ''f3'' [(''alertname'', JString ''Disk'')],
      example_alert ''f4'' [(''alertname'', JString ''Mem''), (''severity'', JString ''High'')]] \<and>
   grafana_webhook (example_payload ''firing''
      [example_alert ''f1'' [(''severity'', JString ''CRITICAL'')],
       example_alert ''f2'' [(''severity'', JString ''warning'')],
       example_alert ''f3'' [(''alertname'', JString ''Disk'')],
       example_alert ''f4'' [(''alertname'', JString ''Mem''), (''severity'', JString ''High'')]]) [] =
     (Inr (JObject
        [(''status'', JString ''received''),
         (''processed_count'', JInt 2),
         (''alerts'',
          JArray [JObject [(''fingerprint'', JString ''f1''), (''severity'', JString ''critical''),
                           (''status'', JString ''queued_for_investigation'')],
                  JObject [(''fingerprint'', JString ''f4''), (''severity'', JString ''high''),
                           (''status'', JString ''queued_for_investigation'')]])]),
      [\<lparr>task_alert = example_alert ''f1'' [(''severity'', JString ''CRITICAL'')],
        task_common_labels = [(''team'', JString ''ops'')], task_common_annotations = []\<rparr>,
       \<lparr>task_alert =
          example_alert ''f4'' [(''alertname'', JString ''Mem''), (''severity'', JString ''High'')],
        task_common_labels = [(''team'', JString ''ops'')], task_common_annotations = []\<rparr>])"
proof -
  let ?as = "[example_alert ''f1'' [(''severity'', JString ''CRITICAL'')],
       example_alert ''f2'' [(''severity'', JString ''warning'')],
       example_alert ''f3'' [(''alertname'', JString ''Disk'')],
       example_alert ''f4'' [(''alertname'', JString ''Mem''), (''severity'', JString ''High'')]]"
  have f: "status (example_payload ''firing'' ?as) = ''firing''"
    by (simp add: example_payload_def)
  have t: "list_all severity_is_text ?as"
    by (simp add: severity_is_text_def example_alert_def dict_get_def)
  have a: "alerts (example_payload ''firing'' ?as) = ?as"
    by (simp add: example_payload_def)
  from t have t': "list_all severity_is_text (alerts (example_payload ''firing'' ?as))"
    by (simp only: a)
  from webhook_firing [OF f t', of "[]"] f t show ?thesis
    by (simp add: example_payload_def example_alert_def alert_severity_def dict_get_def
          py_lower_def lower_examples alert_task_def)
qed

text \<open>
  Claim C5 as stated fails. The values of the labels are any JSON values; for a firing
  payload whose second alert has the severity \<open>null\<close>, reading the severity raises
  \<open>AttributeError\<close> and the handler returns no response, so the critical alert before
  it gets no entry in any response, though its task was added.
\<close>

theorem webhook_firing_counterexample:
  "grafana_webhook (example_payload ''firing''
      [example_alert ''f1'' [(''severity'', JString ''critical'')],
       example_alert ''f2'' [(''severity'', JNull)]]) [] =
     (Inl (Exc ''AttributeError''
             ([CHR 0x27] @ ''NoneType'' @ [CHR 0x27] @ '' object has no attribute '' @
              [CHR 0x27] @ ''lower'' @ [CHR 0x27])
             None),
      [\<lparr>task_alert = example_alert ''f1'' [(''severity'', JString ''critical'')],
        task_common_labels = [(''team'', JString ''ops'')], task_common_annotations = []\<rparr>])"
  by (simp add: grafana_webhook_def example_payload_def example_alert_def alert_severity_def
        dict_get_def py_lower_def lower_examples attribute_error_def alert_task_def)

section \<open>The fallback investigation\<close>

lemma AlertInvestigation_text:
  "AlertInvestigation rt (JString n) (JString s) (JString m) hypothesis impact actions evidence
     conf now =
     Inr \<lparr>alert_name = n, severity = s, summary = m, root_cause_hypothesis = hypothesis,
          impact_assessment = impact, recommended_actions = actions,
          related_evidence = evidence, confidence = conf, investigated_at = now\<rparr>"
  by (simp add: AlertInvestigation_def str_field_def)

lemma investigate_total:
  "catchable eng \<Longrightarrow>
   \<exists>investigation.
     investigate_alert_with_ai rt eng now (JString n) (JString s) descr (JString m)
       metric_values lbls annots = Inr investigation"
  by (cases eng)
     (simp_all add: investigate_alert_with_ai_def AlertInvestigation_text py_upper_def Let_def)

text \<open>
  Claim C3, as the program has it. When the alert name, the severity and the summary are
  strings and the reasoning engine raises an exception that derives from \<open>Exception\<close>,
  the investigation does not raise: it returns the fallback, whose hypothesis is the
  fixed non-empty string "AI investigation failed - manual investigation required" (with
  a hyphen), whose impact is "Alert triggered: " followed by the alert's description as
  an f-string prints it (a description that is a string is printed as it is), whose
  actions are a fixed list of three, whose evidence is a fixed placeholder, and whose
  confidence is 0.
\<close>

theorem investigation_fallback:
  "is_Exception e \<Longrightarrow>
   investigate_alert_with_ai rt (Raises e) now (JString name) (JString sev) descr (JString summ)
     metric_values lbls annots =
     Inr \<lparr>alert_name = name,
          severity = sev,
          summary = summ,
          root_cause_hypothesis = ''AI investigation failed - manual investigation required'',
          impact_assessment = ''Alert triggered: '' @ format_value rt descr,
          recommended_actions =
            [''Check Grafana dashboard'', ''Review recent deployments'', ''Check service logs''],
          related_evidence = [''AI investigation unavailable''],
          confidence = 0,
          investigated_at = now\<rparr> \<and>
   format_value rt (JString d) = d \<and>
   ''AI investigation failed - manual investigation required'' \<noteq> []"
  by (simp add: investigate_alert_with_ai_def AlertInvestigation_text py_upper_def
        format_value_def)

theorem investigation_fallback_witness:
  "is_Exception (Exc ''TimeoutError'' ''engine unreachable'' None) \<and>
   investigate_alert_with_ai example_runtime
     (Raises (Exc ''TimeoutError'' ''engine unreachable'' None)) example_time
     (JString ''HighCPU'') (JString ''critical'') (JString ''CPU above 90%'') (JString ''CPU'')
     [] [] [] =
     Inr (example_investigation example_time)"
proof -
  have e: "is_Exception (Exc ''TimeoutError'' ''engine unreachable'' None)"
    by (simp add: is_Exception_def)
  from investigation_fallback [OF e, of example_runtime example_time "''HighCPU''"
      "''critical''" "JString ''CPU above 90%''" "''CPU''" "[]" "[]" "[]" "''CPU above 90%''"] e
  show ?thesis
    by (simp add: example_investigation_def)
qed

text \<open>
  Claim C3 as stated fails. The hypothesis of the fallback is not the string with the em
  dash that the claim quotes. And the investigation can raise when the engine raises: an
  alert whose label "alertname" is \<open>null\<close> is refused by the constructor of the
  fallback, which raises \<open>ValidationError\<close> from inside the \<open>except\<close> block; and an
  exception of the engine that does not derive from \<open>Exception\<close>, such as the
  cancellation of the task, is not caught.
\<close>

theorem investigation_fallback_counterexample:
  "investigate_alert_with_ai example_runtime
     (Raises (Exc ''TimeoutError'' ''engine unreachable'' None)) example_time
     (JString ''HighCPU'') (JString ''critical'') (JString ''CPU above 90%'') (JString ''CPU'')
     [] [] [] =
     Inr (example_investigation example_time) \<and>
   root_cause_hypothesis (example_investigation example_time) \<noteq> spec_fallback_hypothesis \<and>
   investigate_alert_with_ai example_runtime
     (Raises (Exc ''TimeoutError'' ''engine unreachable'' None)) example_time
     JNull (JString ''critical'') (JString ''CPU above 90%'') (JString ''CPU'') [] [] [] =
     Inl (Exc ''ValidationError'' ''validation error for AlertInvestigation: alert_name'' None) \<and>
   investigate_alert_with_ai example_runtime
     (Raises (Exc ''CancelledError'' [] None)) example_time
     (JString ''HighCPU'') (JString ''critical'') (JString ''CPU above 90%'') (JString ''CPU'')
     [] [] [] =
     Inl (Exc ''CancelledError'' [] None)"
  by (simp add: investigate_alert_with_ai_def AlertInvestigation_def str_field_def py_upper_def
        is_Exception_def example_runtime_def example_investigation_def format_value_def
        spec_fallback_hypothesis_def)

section \<open>Priorities of the tickets of the webhook pipeline\<close>

lemma passed_filter_severity:
  assumes "alert_severity a = Inr ''critical'' \<or> alert_severity a = Inr ''high''"
  shows "py_lower (dict_get (labels a) ''severity'' (JString ''unknown'')) = alert_severity a"
proof (cases "map_of (labels a) ''severity''")
  case None
  then have "alert_severity a = Inr ''info''"
    by (simp add: alert_severity_def dict_get_def py_lower_def lower_examples)
  with assms show ?thesis by simp
next
  case (Some v)
  then show ?thesis
    by (simp add: alert_severity_def dict_get_def)
qed

lemma create_servicenow_ticket_priority:
  "create_servicenow_ticket fmt n1 n2 dir alert investigation sev = Inr (t, dir') \<Longrightarrow>
   severity_priority sev = Inr (priority t)"
  by (auto simp: create_servicenow_ticket_def Let_def split: sum.splits)

lemma create_servicenow_ticket_total:
  "\<exists>t dir'. create_servicenow_ticket fmt n1 n2 dir alert investigation sev = Inr (t, dir')"
  by (simp add: create_servicenow_ticket_def severity_priority_def dict_index_def dict_get_def
        SEVERITY_MAPPING_def Let_def)

lemma process_alert_priority:
  assumes "process_alert out dir a common_labels common_annotations = Inr (Some t, dir')"
  shows "\<exists>sev. py_lower (dict_get (labels a) ''severity'' (JString ''unknown'')) = Inr sev \<and>
           severity_priority sev = Inr (priority t)"
proof (cases "py_lower (dict_get (labels a) ''severity'' (JString ''unknown''))")
  case (Inl e)
  with assms show ?thesis
    by (simp add: process_alert_def Let_def split: if_splits)
next
  case (Inr sev)
  let ?name = "dict_get (labels a) ''alertname'' (JString ''Unknown Alert'')"
  let ?i = "investigate_alert_with_ai (libraries out) (engine out) (now_investigated out)
      ?name (JString sev)
      (dict_get (annotations a) ''description'' (JString ''No description''))
      (dict_get (annotations a) ''summary'' ?name)
      (case alert_values a of None \<Rightarrow> [] | Some vs \<Rightarrow> vs) (labels a) (annotations a)"
  show ?thesis
  proof (cases ?i)
    case (Inl e)
    with assms Inr show ?thesis
      by (simp add: process_alert_def Let_def split: if_splits)
  next
    case i: (Inr investigation)
    from assms Inr i have
      "create_servicenow_ticket (render out) (now_number out) (now_created out) dir a
         investigation sev = Inr (t, dir')"
      by (auto simp: process_alert_def Let_def split: sum.splits if_splits prod.splits)
    then have "severity_priority sev = Inr (priority t)"
      by (rule create_servicenow_ticket_priority)
    with Inr show ?thesis by simp
  qed
qed

lemma text_or_absent_get:
  "text_or_absent d k \<Longrightarrow> \<exists>s. dict_get d k (JString dflt) = JString s"
  by (cases "map_of d k"; cases "dict_get d k (JString [])")
     (auto simp: text_or_absent_def dict_get_def)

lemma process_alert_ticket:
  assumes "py_lower (dict_get (labels a) ''severity'' (JString ''unknown'')) = Inr sev"
    and "text_or_absent (labels a) ''alertname''"
    and "text_or_absent (annotations a) ''summary''"
    and "catchable (engine out)"
  shows "\<exists>t dir'. process_alert out dir a common_labels common_annotations = Inr (Some t, dir')"
proof -
  obtain n where n: "dict_get (labels a) ''alertname'' (JString ''Unknown Alert'') = JString n"
    using text_or_absent_get [OF assms(2)] by blast
  obtain m where m: "dict_get (annotations a) ''summary'' (JString n) = JString m"
    using text_or_absent_get [OF assms(3)] by blast
  obtain investigation where
    i: "investigate_alert_with_ai (libraries out) (engine out) (now_investigated out)
          (JString n) (JString sev)
          (dict_get (annotations a) ''description'' (JString ''No description''))
          (JString m)
          (case alert_values a of None \<Rightarrow> [] | Some vs \<Rightarrow> vs) (labels a) (annotations a)
        = Inr investigation"
    using investigate_total [OF assms(4)] by blast
  obtain t dir' where
    "create_servicenow_ticket (render out) (now_number out) (now_created out) dir a
       investigation sev = Inr (t, dir')"
    using create_servicenow_ticket_total by blast
  then have "process_alert out dir a common_labels common_annotations = Inr (Some t, dir')"
    by (simp add: process_alert_def Let_def assms(1) n m i)
  then show ?thesis by blast
qed

text \<open>
  Claim C10. For an alert that passes the severity filter of the webhook (its "severity"
  label, default "info", is "critical" or "high" in lower case), every ticket the
  background task creates has priority P1 or P2 respectively, whatever the engine, the
  libraries and the clock do: the second default "unknown" of \<open>process_alert\<close> is never
  used for such an alert, so no ticket of priority P3 or P4 comes out of the pipeline.
  And the task does create a ticket for it when the alert name and the summary are
  strings or missing and the engine returns or raises an exception that derives from
  \<open>Exception\<close>.
\<close>

theorem passed_filter_priority:
  assumes "alert_severity a = Inr ''critical'' \<or> alert_severity a = Inr ''high''"
  shows "(\<forall>t dir'. process_alert out dir a common_labels common_annotations = Inr (Some t, dir')
            \<longrightarrow> (alert_severity a = Inr ''critical'' \<and> priority t = ''P1'' \<or>
                 alert_severity a = Inr ''high'' \<and> priority t = ''P2'')) \<and>
         (text_or_absent (labels a) ''alertname'' \<and> text_or_absent (annotations a) ''summary'' \<and>
          catchable (engine out) \<longrightarrow>
            (\<exists>t dir'. process_alert out dir a common_labels common_annotations = Inr (Some t, dir') \<and>
               (alert_severity a = Inr ''critical'' \<and> priority t = ''P1'' \<or>
                alert_severity a = Inr ''high'' \<and> priority t = ''P2'')))"
proof -
  have prio: "alert_severity a = Inr ''critical'' \<and> priority t = ''P1'' \<or>
              alert_severity a = Inr ''high'' \<and> priority t = ''P2''"
    if made: "process_alert out dir a common_labels common_annotations = Inr (Some t, dir')"
    for t dir'
  proof -
    obtain sev where
      s: "py_lower (dict_get (labels a) ''severity'' (JString ''unknown'')) = Inr sev"
      and p: "severity_priority sev = Inr (priority t)"
      using process_alert_priority [OF made] by blast
    from s have "alert_severity a = Inr sev"
      by (simp add: passed_filter_severity [OF assms])
    with assms p show ?thesis
      by (auto simp: severity_priority_cases)
  qed
  have ex: "\<exists>t dir'. process_alert out dir a common_labels common_annotations = Inr (Some t, dir')"
    if "text_or_absent (labels a) ''alertname''" "text_or_absent (annotations a) ''summary''"
      "catchable (engine out)"
  proof -
    from assms obtain sev where "alert_severity a = Inr sev" by blast
    then have "py_lower (dict_get (labels a) ''severity'' (JString ''unknown'')) = Inr sev"
      by (simp add: passed_filter_severity [OF assms])
    from process_alert_ticket [OF this that] show ?thesis .
  qed
  from prio ex show ?thesis
    by blast
qed

theorem passed_filter_priority_witness:
  "(alert_severity
      (example_alert ''f4'' [(''alertname'', JString ''Mem''), (''severity'', JString ''High'')])
      = Inr ''critical'' \<or>
    alert_severity
      (example_alert ''f4'' [(''alertname'', JString ''Mem''), (''severity'', JString ''High'')])
      = Inr ''high'') \<and>
   text_or_absent
     (labels (example_alert ''f4'' [(''alertname'', JString ''Mem''), (''severity'', JString ''High'')]))
     ''alertname'' \<and>
   text_or_absent
     (annotations
        (example_alert ''f4'' [(''alertname'', JString ''Mem''), (''severity'', JString ''High'')]))
     ''summary'' \<and>
   catchable (engine example_outside) \<and>
   (\<exists>t dir'. process_alert example_outside []
       (example_alert ''f4'' [(''alertname'', JString ''Mem''), (''severity'', JString ''High'')])
       [] [] = Inr (Some t, dir') \<and>
      priority t = ''P2'')"
proof -
  let ?a = "example_alert ''f4'' [(''alertname'', JString ''Mem''), (''severity'', JString ''High'')]"
  have s: "alert_severity ?a = Inr ''high''"
    by (simp add: alert_severity_def example_alert_def dict_get_def py_lower_def lower_examples)
  have n: "text_or_absent (labels ?a) ''alertname''"
    by (simp add: text_or_absent_def example_alert_def dict_get_def)
  have m: "text_or_absent (annotations ?a) ''summary''"
    by (simp add: text_or_absent_def example_alert_def dict_get_def)
  have c: "catchable (engine example_outside)"
    by (simp add: example_outside_def is_Exception_def)
  from s have "alert_severity ?a = Inr ''critical'' \<or> alert_severity ?a = Inr ''high''"
    by simp
  from passed_filter_priority [OF this, of example_outside "[]" "[]" "[]"] n m c s
  have "\<exists>t dir'. process_alert example_outside [] ?a [] [] = Inr (Some t, dir') \<and>
      priority t = ''P2''"
    by auto
  with s n m c show ?thesis
    by simp
qed

text \<open>Every task the webhook schedules is for an alert that passed the filter.\<close>

lemma scheduled_tasks_passed_filter:
  assumes "task \<in> set (snd (grafana_webhook payload []))"
  shows "alert_severity (task_alert task) = Inr ''critical'' \<or>
         alert_severity (task_alert task) = Inr ''high''"
proof (cases "status payload = ''firing''")
  case True
  obtain r tasks where l: "webhook_loop payload (alerts payload) [] [] = (r, tasks)"
    by (cases "webhook_loop payload (alerts payload) [] []") auto
  with True assms have "task \<in> set tasks"
    by (cases r) (simp_all add: grafana_webhook_def)
  with l webhook_loop_tasks [of payload "alerts payload" "[]" "[]"] show ?thesis
    by (auto simp: alert_task_def)
next
  case False
  with assms show ?thesis
    by (simp add: grafana_webhook_def)
qed

text \<open>
  An alert that passed the filter can end without a ticket: with the label "alertname"
  \<open>null\<close> the fallback investigation raises, and the task logs the error.
\<close>

lemma process_alert_no_ticket:
  "process_alert example_outside []
     (example_alert ''f5'' [(''alertname'', JNull), (''severity'', JString ''critical'')]) [] []
   = Inr (None, [])"
  by (simp add: process_alert_def example_alert_def dict_get_def py_lower_def lower_examples
        investigate_alert_with_ai_def AlertInvestigation_def str_field_def py_upper_def
        example_outside_def example_runtime_def is_Exception_def Let_def)

section \<open>The connection: failed attempts\<close>

lemma failed_attempt_cleanup:
  assumes "failure_of (attempt srv (attempts_made w)) = Some e"
    and "session c = None" and "exit_stack c = None"
  shows "\<exists>c1 w1. try_connect srv c w = (Some e, c1, w1) \<and>
           connect_cleanup srv c1 w1 =
             (c\<lparr>connection_attempts := Suc (connection_attempts c)\<rparr>, after_failed_attempt srv w)"
  using assms
  by (cases c; cases w; cases "attempt srv (attempts_made w)")
     (auto simp: try_connect_def connect_cleanup_def aexit_def after_failed_attempt_def Let_def)

lemma connect_loop_failed_step:
  assumes "failure_of (attempt srv (attempts_made w)) = Some e"
    and "session c = None" and "exit_stack c = None"
    and "connection_attempts c < max_retries c"
  shows "connect_loop srv c w =
           (if max_retries c \<le> Suc (connection_attempts c)
            then (Inl (connect_error (max_retries c) e),
                  c\<lparr>connection_attempts := Suc (connection_attempts c)\<rparr>,
                  after_failed_attempt srv w)
            else connect_loop srv (c\<lparr>connection_attempts := Suc (connection_attempts c)\<rparr>)
                   (after_failed_attempt srv w))"
proof -
  obtain c1 w1 where t: "try_connect srv c w = (Some e, c1, w1)"
    and cl: "connect_cleanup srv c1 w1 =
             (c\<lparr>connection_attempts := Suc (connection_attempts c)\<rparr>, after_failed_attempt srv w)"
    using failed_attempt_cleanup [OF assms(1-3)] by blast
  show ?thesis
    by (subst connect_loop.simps) (simp add: assms(4) t cl)
qed

lemma after_failed_attempt_simps:
  "attempts_made (after_failed_attempt srv w) = Suc (attempts_made w)"
  "calls_made (after_failed_attempt srv w) = calls_made w"
  "opened w = [] \<Longrightarrow> opened (after_failed_attempt srv w) = []"
  "released (after_failed_attempt srv w) =
     released w @ rev (acquired (attempt srv (attempts_made w)) (attempts_made w))"
  by (simp_all add: after_failed_attempt_def)

text \<open>
  Claim C1, at the input where the program departs from it. A fresh client connects to a
  server on which three attempts in a row fail, with nothing open before. The call makes
  exactly three attempts, closes after each what that attempt had entered (the last
  entered first), raises the connection error that wraps the third failure, and leaves
  no session, no exit stack and nothing open. The attempt counter is left at 3, not
  reset: the next call of \<open>connect\<close>, on any server, makes no attempt at all and
  returns without an error and without a session.
\<close>

theorem connect_exhausted_counter_stays:
  assumes f1: "failure_of (attempt srv (attempts_made w)) = Some e1"
    and f2: "failure_of (attempt srv (attempts_made w + 1)) = Some e2"
    and f3: "failure_of (attempt srv (attempts_made w + 2)) = Some e3"
    and op: "opened w = []"
  shows "fst (connect srv init_client w) = Inl (connect_error 3 e3) \<and>
         fst (snd (connect srv init_client w)) = init_client\<lparr>connection_attempts := 3\<rparr> \<and>
         attempts_made (snd (snd (connect srv init_client w))) = attempts_made w + 3 \<and>
         opened (snd (snd (connect srv init_client w))) = [] \<and>
         released (snd (snd (connect srv init_client w))) =
           released w @ rev (acquired (attempt srv (attempts_made w)) (attempts_made w))
             @ rev (acquired (attempt srv (attempts_made w + 1)) (attempts_made w + 1))
             @ rev (acquired (attempt srv (attempts_made w + 2)) (attempts_made w + 2)) \<and>
         connect srv' (fst (snd (connect srv init_client w))) (snd (snd (connect srv init_client w)))
           = (Inr (), init_client\<lparr>connection_attempts := 3\<rparr>, snd (snd (connect srv init_client w)))"
proof -
  let ?w1 = "after_failed_attempt srv w"
  let ?w2 = "after_failed_attempt srv ?w1"
  let ?w3 = "after_failed_attempt srv ?w2"
  let ?c = "\<lambda>n. \<lparr>session = None, exit_stack = None, connection_attempts = n, max_retries = 3\<rparr>"
  have s1: "connect_loop srv (?c 0) w = connect_loop srv (?c (Suc 0)) ?w1"
    using connect_loop_failed_step [of srv w e1 "?c 0"] f1
    by simp
  have s2: "connect_loop srv (?c (Suc 0)) ?w1 = connect_loop srv (?c (Suc (Suc 0))) ?w2"
    using connect_loop_failed_step [of srv ?w1 e2 "?c (Suc 0)"] f2
    by (simp add: after_failed_attempt_simps)
  have s3: "connect_loop srv (?c (Suc (Suc 0))) ?w2 = (Inl (connect_error 3 e3), ?c (Suc (Suc (Suc 0))), ?w3)"
    using connect_loop_failed_step [of srv ?w2 e3 "?c (Suc (Suc 0))"] f3
    by (simp add: after_failed_attempt_simps)
  have c3: "?c (Suc (Suc (Suc 0))) = init_client\<lparr>connection_attempts := 3\<rparr>"
    by (simp add: init_client_def numeral_3_eq_3)
  have "connect srv init_client w = (Inl (connect_error 3 e3), ?c (Suc (Suc (Suc 0))), ?w3)"
    by (simp add: connect_def init_client_def s1 s2 s3)
  then have c: "connect srv init_client w =
      (Inl (connect_error 3 e3), init_client\<lparr>connection_attempts := 3\<rparr>, ?w3)"
    by (simp only: c3)
  have "connect srv' (?c (Suc (Suc (Suc 0)))) ?w3 = (Inr (), ?c (Suc (Suc (Suc 0))), ?w3)"
    by (simp add: connect_def connect_loop.simps [of srv' "?c (Suc (Suc (Suc 0)))"])
  then have again: "connect srv' (init_client\<lparr>connection_attempts := 3\<rparr>) ?w3 =
      (Inr (), init_client\<lparr>connection_attempts := 3\<rparr>, ?w3)"
    by (simp only: c3)
  show ?thesis
    by (simp add: c again after_failed_attempt_simps op)
qed

theorem connect_exhausted_counter_stays_witness:
  "failure_of (attempt refusing_server (attempts_made idle_world))
     = Some (Exc ''ConnectError'' ''refused'' None) \<and>
   failure_of (attempt refusing_server (attempts_made idle_world + 1))
     = Some (Exc ''RuntimeError'' ''no session'' None) \<and>
   failure_of (attempt refusing_server (attempts_made idle_world + 2))
     = Some (Exc ''TimeoutError'' ''initialize timed out'' None) \<and>
   opened idle_world = [] \<and>
   fst (connect refusing_server init_client idle_world)
     = Inl (connect_error 3 (Exc ''TimeoutError'' ''initialize timed out'' None)) \<and>
   connection_attempts (fst (snd (connect refusing_server init_client idle_world))) = 3 \<and>
   session (fst (snd (connect refusing_server init_client idle_world))) = None \<and>
   fst (connect healthy_server (fst (snd (connect refusing_server init_client idle_world)))
          (snd (snd (connect refusing_server init_client idle_world)))) = Inr () \<and>
   session (fst (snd (connect healthy_server
       (fst (snd (connect refusing_server init_client idle_world)))
       (snd (snd (connect refusing_server init_client idle_world)))))) = None"
proof -
  have f: "failure_of (attempt refusing_server (attempts_made idle_world))
             = Some (Exc ''ConnectError'' ''refused'' None)"
    "failure_of (attempt refusing_server (attempts_made idle_world + 1))
             = Some (Exc ''RuntimeError'' ''no session'' None)"
    "failure_of (attempt refusing_server (attempts_made idle_world + 2))
             = Some (Exc ''TimeoutError'' ''initialize timed out'' None)"
    "opened idle_world = []"
    by (simp_all add: refusing_server_def idle_world_def)
  note r = connect_exhausted_counter_stays [OF f, of healthy_server]
  from r have c: "fst (snd (connect refusing_server init_client idle_world))
                   = init_client\<lparr>connection_attempts := 3\<rparr>"
    by blast
  from r have again: "connect healthy_server
       (fst (snd (connect refusing_server init_client idle_world)))
       (snd (snd (connect refusing_server init_client idle_world)))
     = (Inr (), init_client\<lparr>connection_attempts := 3\<rparr>,
        snd (snd (connect refusing_server init_client idle_world)))"
    by blast
  from r have e: "fst (connect refusing_server init_client idle_world)
     = Inl (connect_error 3 (Exc ''TimeoutError'' ''initialize timed out'' None))"
    by blast
  show ?thesis
    unfolding again using f
    by (simp add: e c) (simp add: init_client_def)
qed

text \<open>The connection error names its cause.\<close>

lemma connect_error_wraps:
  "exc_type (connect_error n e) = ''Exception'' \<and> exc_cause (connect_error n e) = Some e \<and>
   contains (exc_msg (connect_error n e)) (exc_msg e)"
  using contains_infix
    [of "''Failed to connect to MCP server after '' @ str_nat n @ '' attempts: ''" "exc_msg e" "[]"]
  by (simp add: connect_error_def)

section \<open>The connection: disconnect\<close>

lemma disconnect_idle: "exit_stack c = None \<Longrightarrow> disconnect srv c w = (c, w)"
  by (simp add: disconnect_def)

lemma disconnect_releases:
  "exit_stack c = Some stack \<Longrightarrow>
   released (snd (disconnect srv c w)) = released w @ rev stack \<and>
   opened (snd (disconnect srv c w)) = filter (\<lambda>r. r \<notin> set stack) (opened w)"
  by (cases "teardown srv stack") (simp_all add: disconnect_def aexit_def)

lemma disconnect_clean:
  "exit_stack c = Some stack \<Longrightarrow> teardown srv stack = None \<Longrightarrow>
   fst (disconnect srv c w) = c\<lparr>exit_stack := None, session := None, connection_attempts := 0\<rparr>"
  by (simp add: disconnect_def aexit_def)

lemma connect_healthy:
  "attempt srv 0 = Connects \<Longrightarrow>
   connect srv init_client idle_world =
     (Inr (),
      \<lparr>session = Some 0, exit_stack = Some [Transport 0, Client_session 0],
       connection_attempts = 0, max_retries = 3\<rparr>,
      \<lparr>opened = [Transport 0, Client_session 0], released = [], attempts_made = Suc 0,
       calls_made = 0\<rparr>)"
  by (simp add: connect_def init_client_def idle_world_def try_connect_def
        connect_loop.simps [of srv "\<lparr>session = None, exit_stack = None, connection_attempts = 0, max_retries = 3\<rparr>"])

text \<open>
  Claim C9, at the input where the program departs from it. When closing the exit stack
  raises, \<open>disconnect\<close> does not raise and the contexts are closed in reverse order of
  acquisition, but the assignments that clear the client are skipped: the session and
  the (emptied) exit stack stay in their fields, so the client is not disconnected.
\<close>

theorem disconnect_teardown_error:
  assumes "exit_stack c = Some stack" and "teardown srv stack = Some e"
  shows "fst (disconnect srv c w) = c\<lparr>exit_stack := Some []\<rparr> \<and>
         session (fst (disconnect srv c w)) = session c \<and>
         exit_stack (fst (disconnect srv c w)) \<noteq> None \<and>
         released (snd (disconnect srv c w)) = released w @ rev stack"
  using assms by (simp add: disconnect_def aexit_def)

theorem disconnect_teardown_error_witness:
  "exit_stack (fst (snd (connect closing_fails_server init_client idle_world)))
     = Some [Transport 0, Client_session 0] \<and>
   teardown closing_fails_server [Transport 0, Client_session 0]
     = Some (Exc ''RuntimeError'' ''cancel scope in another task'' None) \<and>
   session (fst (disconnect closing_fails_server
      (fst (snd (connect closing_fails_server init_client idle_world)))
      (snd (snd (connect closing_fails_server init_client idle_world))))) = Some 0 \<and>
   exit_stack (fst (disconnect closing_fails_server
      (fst (snd (connect closing_fails_server init_client idle_world)))
      (snd (snd (connect closing_fails_server init_client idle_world))))) = Some [] \<and>
   released (snd (disconnect closing_fails_server
      (fst (snd (connect closing_fails_server init_client idle_world)))
      (snd (snd (connect closing_fails_server init_client idle_world)))))
     = [Client_session 0, Transport 0]"
proof -
  have a: "attempt closing_fails_server 0 = Connects"
    by (simp add: closing_fails_server_def)
  have s: "exit_stack (fst (snd (connect closing_fails_server init_client idle_world)))
     = Some [Transport 0, Client_session 0]"
    by (simp add: connect_healthy [OF a])
  have t: "teardown closing_fails_server [Transport 0, Client_session 0]
     = Some (Exc ''RuntimeError'' ''cancel scope in another task'' None)"
    by (simp add: closing_fails_server_def)
  from disconnect_teardown_error [OF s t, of "snd (snd (connect closing_fails_server init_client idle_world))"] s t
  show ?thesis
    by (simp add: connect_healthy [OF a])
qed

section \<open>Invoking a tool through the cache\<close>

lemma canonical_cong: "map_of args1 = map_of args2 \<Longrightarrow> canonical args1 = canonical args2"
proof -
  assume m: "map_of args1 = map_of args2"
  then have "dom (map_of args1) = dom (map_of args2)"
    by simp
  then have "set (map fst args1) = set (map fst args2)"
    by (simp add: dom_map_of_conv_image_fst)
  with m show ?thesis
    by (simp add: canonical_def)
qed

lemma cache_key_cong:
  "map_of args1 = map_of args2 \<Longrightarrow> cache_key name args1 = cache_key name args2"
  using canonical_cong [of args1 args2] by (simp add: cache_key_def)

lemma cache_get_set:
  "map_of args1 = map_of args2 \<Longrightarrow> cache_get (cache_set cache name args1 v) name args2 = v"
  using cache_key_cong [of args1 args2 name] by (simp add: cache_get_def cache_set_def)

lemma cache_get_cong:
  "map_of args1 = map_of args2 \<Longrightarrow> cache_get cache name args1 = cache_get cache name args2"
  using cache_key_cong [of args1 args2 name] by (simp add: cache_get_def)

lemma invoke_error_names_tool: "contains (exc_msg (invoke_error name e)) name"
  using contains_infix [of "''Failed to invoke tool '' @ [CHR 0x27]" name
      "[CHR 0x27] @ '': '' @ exc_msg e"]
  by (simp add: invoke_error_def)

lemma invoke_tool_hit:
  "cache_get cache name args = Some v \<Longrightarrow>
   invoke_tool srv name args c cache w = (Inr (Content (Some v)), c, cache, w)"
  by (simp add: invoke_tool_def)

lemma invoke_tool_miss:
  assumes "cache_get cache name args = None"
  obtains (not_connected) e c1 w1 where
      "ensure_connected srv c w = (Inl e, c1, w1)"
      "invoke_tool srv name args c cache w = (Inl (invoke_except name e), c1, cache, w1)"
  | (no_session) u c1 w1 e where
      "ensure_connected srv c w = (Inr u, c1, w1)" "session c1 = None"
      "invoke_tool srv name args c cache w = (Inl (invoke_except name e), c1, cache, w1)"
  | (call_raises) u c1 w1 s e where
      "ensure_connected srv c w = (Inr u, c1, w1)" "session c1 = Some s"
      "call_tool srv (calls_made w1) name args = Call_raises e"
      "invoke_tool srv name args c cache w =
         (Inl (invoke_except name e), c1, cache, w1\<lparr>calls_made := Suc (calls_made w1)\<rparr>)"
  | (no_content) u c1 w1 s where
      "ensure_connected srv c w = (Inr u, c1, w1)" "session c1 = Some s"
      "call_tool srv (calls_made w1) name args = Call_no_content"
      "invoke_tool srv name args c cache w =
         (Inr (Error_dict (''No response from tool '' @ name)), c1, cache,
          w1\<lparr>calls_made := Suc (calls_made w1)\<rparr>)"
  | (content) u c1 w1 s v where
      "ensure_connected srv c w = (Inr u, c1, w1)" "session c1 = Some s"
      "call_tool srv (calls_made w1) name args = Call_content v"
      "invoke_tool srv name args c cache w =
         (Inr (Content v), c1, cache_set cache name args v,
          w1\<lparr>calls_made := Suc (calls_made w1)\<rparr>)"
proof -
  obtain r c1 w1 where ec: "ensure_connected srv c w = (r, c1, w1)"
    by (cases "ensure_connected srv c w") auto
  show thesis
  proof (cases r)
    case (Inl e)
    with ec assms show thesis
      by (intro not_connected [of e c1 w1]) (simp_all add: invoke_tool_def)
  next
    case (Inr u)
    show thesis
    proof (cases "session c1")
      case None
      with ec Inr assms show thesis
        by (intro no_session [of u c1 w1]) (simp_all add: invoke_tool_def)
    next
      case (Some s)
      show thesis
      proof (cases "call_tool srv (calls_made w1) name args")
        case (Call_raises e)
        with ec Inr Some assms show thesis
          by (intro call_raises [of u c1 w1 s e]) (simp_all add: invoke_tool_def)
      next
        case Call_no_content
        with ec Inr Some assms show thesis
          by (intro no_content [of u c1 w1 s]) (simp_all add: invoke_tool_def)
      next
        case (Call_content v)
        with ec Inr Some assms show thesis
          by (intro content [of u c1 w1 s v]) (simp_all add: invoke_tool_def)
      qed
    qed
  qed
qed

lemma invoke_tool_content_cached:
  assumes "invoke_tool srv name args c cache w = (Inr (Content (Some v)), c1, cache1, w1)"
  shows "cache_get cache1 name args = Some v"
proof (cases "cache_get cache name args")
  case (Some u)
  with assms show ?thesis
    by (simp add: invoke_tool_def)
next
  case None
  then show ?thesis
    using assms
    by (cases rule: invoke_tool_miss [of cache name args srv c w])
       (auto simp: cache_get_set [of args args])
qed

lemma invoke_tool_raises:
  assumes "invoke_tool srv name args c cache w = (Inl x, c1, cache1, w1)"
  shows "cache1 = cache \<and> (\<exists>e. x = invoke_except name e)"
proof (cases "cache_get cache name args")
  case (Some u)
  with assms show ?thesis
    by (simp add: invoke_tool_def)
next
  case None
  then show ?thesis
    using assms by (cases rule: invoke_tool_miss [of cache name args srv c w]) auto
qed

lemma invoke_tool_call_raises:
  assumes "cache_get cache name args = None"
    and "ensure_connected srv c w = (Inr (), c1, w1)"
    and "session c1 = Some s"
    and "call_tool srv (calls_made w1) name args = Call_raises e"
  shows "invoke_tool srv name args c cache w =
           (Inl (invoke_except name e), c1, cache, w1\<lparr>calls_made := Suc (calls_made w1)\<rparr>)"
  using assms by (simp add: invoke_tool_def Let_def)

lemma invoke_tool_call_content:
  assumes "cache_get cache name args = None"
    and "ensure_connected srv c w = (Inr (), c1, w1)"
    and "session c1 = Some s"
    and "call_tool srv (calls_made w1) name args = Call_content v"
  shows "invoke_tool srv name args c cache w =
           (Inr (Content v), c1, cache_set cache name args v,
            w1\<lparr>calls_made := Suc (calls_made w1)\<rparr>)"
  using assms by (simp add: invoke_tool_def Let_def)

lemma ensure_connected_fresh:
  "attempt srv 0 = Connects \<Longrightarrow>
   ensure_connected srv init_client idle_world = (Inr (), connected_client, connected_world 0)"
  by (simp add: ensure_connected_def connect_healthy connected_client_def connected_world_def)
     (simp add: init_client_def)

text \<open>
  A response whose content is \<open>None\<close> is stored but never found again: the second call
  goes to the server once more.
\<close>

lemma invoke_tool_none_not_reused:
  "cache_get (cache_set cache name args None) name args = None"
  by (simp add: cache_get_set [of args args])

text \<open>
  Claim C2. Two argument mappings are semantically equal when they map the same keys to
  the same values, in whatever order the keys were inserted. When a call of
  \<open>invoke_tool\<close> returns the content of a response, that content is in the cache under
  the call's key, and a second call with the same tool name and a semantically equal
  mapping returns it and leaves the client, the cache and the world as they were, on any
  server: no remote call is made and the connection is not touched. A call that misses
  the cache and whose remote call returns content returns that content, having made one
  remote call, and stores it in the cache. When the remote call raises an exception
  \<open>e\<close> that derives from \<open>Exception\<close>, \<open>invoke_tool\<close> raises
  \<open>Exception("Failed to invoke tool '<name>': <e>")\<close> with cause \<open>e\<close>; and
  whenever \<open>invoke_tool\<close> raises, the cache is as it was before the call, and the
  exception raised is of that form, with the tool name in its message, unless it is one
  that \<open>except Exception\<close> does not catch.
\<close>

theorem invoke_tool_cache:
  "(map_of args1 = map_of args2 \<and>
    invoke_tool srv name args1 c cache w = (Inr (Content (Some v)), c1, cache1, w1) \<longrightarrow>
      cache_get cache1 name args1 = Some v \<and>
      invoke_tool srv' name args2 c1 cache1 w1 = (Inr (Content (Some v)), c1, cache1, w1)) \<and>
   (cache_get cache name args = None \<and>
    ensure_connected srv c w = (Inr (), c2, w2) \<and> session c2 = Some s \<and>
    call_tool srv (calls_made w2) name args = Call_content (Some v') \<longrightarrow>
      invoke_tool srv name args c cache w =
        (Inr (Content (Some v')), c2, cache_set cache name args (Some v'),
         w2\<lparr>calls_made := Suc (calls_made w2)\<rparr>) \<and>
      cache_get (cache_set cache name args (Some v')) name args = Some v') \<and>
   (cache_get cache name args = None \<and>
    ensure_connected srv c w = (Inr (), c2, w2) \<and> session c2 = Some s \<and>
    call_tool srv (calls_made w2) name args = Call_raises e \<and> is_Exception e \<longrightarrow>
      invoke_tool srv name args c cache w =
        (Inl (Exc ''Exception''
                (''Failed to invoke tool '' @ [CHR 0x27] @ name @ [CHR 0x27] @ '': '' @ exc_msg e)
                (Some e)),
         c2, cache, w2\<lparr>calls_made := Suc (calls_made w2)\<rparr>)) \<and>
   (invoke_tool srv name args c cache w = (Inl x, c3, cache3, w3) \<longrightarrow>
      cache3 = cache \<and>
      ((\<exists>e'. x = Exc ''Exception''
                 (''Failed to invoke tool '' @ [CHR 0x27] @ name @ [CHR 0x27] @ '': '' @ exc_msg e')
                 (Some e')) \<and>
       contains (exc_msg x) name \<or>
       \<not> is_Exception x))"
proof (intro conjI impI)
  assume a: "map_of args1 = map_of args2 \<and>
    invoke_tool srv name args1 c cache w = (Inr (Content (Some v)), c1, cache1, w1)"
  then have i: "invoke_tool srv name args1 c cache w = (Inr (Content (Some v)), c1, cache1, w1)"
    by simp
  from invoke_tool_content_cached [OF i] show g: "cache_get cache1 name args1 = Some v" .
  from a g have "cache_get cache1 name args2 = Some v"
    using cache_get_cong [of args1 args2 cache1 name] by simp
  then show "invoke_tool srv' name args2 c1 cache1 w1 = (Inr (Content (Some v)), c1, cache1, w1)"
    by (rule invoke_tool_hit)
next
  assume "cache_get cache name args = None \<and>
    ensure_connected srv c w = (Inr (), c2, w2) \<and> session c2 = Some s \<and>
    call_tool srv (calls_made w2) name args = Call_content (Some v')"
  then show "invoke_tool srv name args c cache w =
        (Inr (Content (Some v')), c2, cache_set cache name args (Some v'),
         w2\<lparr>calls_made := Suc (calls_made w2)\<rparr>)"
    by (simp add: invoke_tool_call_content [of cache name args srv c w c2 w2 s "Some v'"])
next
  show "cache_get (cache_set cache name args (Some v')) name args = Some v'"
    by (simp add: cache_get_set [of args args])
next
  assume "cache_get cache name args = None \<and>
    ensure_connected srv c w = (Inr (), c2, w2) \<and> session c2 = Some s \<and>
    call_tool srv (calls_made w2) name args = Call_raises e \<and> is_Exception e"
  then show "invoke_tool srv name args c cache w =
        (Inl (Exc ''Exception''
                (''Failed to invoke tool '' @ [CHR 0x27] @ name @ [CHR 0x27] @ '': '' @ exc_msg e)
                (Some e)),
         c2, cache, w2\<lparr>calls_made := Suc (calls_made w2)\<rparr>)"
    by (simp add: invoke_tool_call_raises [of cache name args srv c w c2 w2 s e]
          invoke_except_def invoke_error_def)
next
  assume a: "invoke_tool srv name args c cache w = (Inl x, c3, cache3, w3)"
  from invoke_tool_raises [OF a] show "cache3 = cache" by blast
  from invoke_tool_raises [OF a] obtain e' where x: "x = invoke_except name e'" by blast
  show "(\<exists>e'. x = Exc ''Exception''
                 (''Failed to invoke tool '' @ [CHR 0x27] @ name @ [CHR 0x27] @ '': '' @ exc_msg e')
                 (Some e')) \<and>
       contains (exc_msg x) name \<or>
       \<not> is_Exception x"
  proof (cases "is_Exception e'")
    case True
    with x have x': "x = invoke_error name e'"
      by (simp add: invoke_except_def)
    then have "x = Exc ''Exception''
                 (''Failed to invoke tool '' @ [CHR 0x27] @ name @ [CHR 0x27] @ '': '' @ exc_msg e')
                 (Some e')"
      by (simp add: invoke_error_def)
    moreover from x' have "contains (exc_msg x) name"
      by (simp only: invoke_error_names_tool)
    ultimately show ?thesis by blast
  next
    case False
    with x show ?thesis
      by (simp add: invoke_except_def)
  qed
qed

theorem invoke_tool_cache_witness:
  "map_of [(''query'', ''up''), (''step'', ''15s'')] = map_of [(''step'', ''15s''), (''query'', ''up'')] \<and>
   cache_get (Map.empty :: (string, string) cache) ''prometheus_query''
     [(''query'', ''up''), (''step'', ''15s'')] = None \<and>
   ensure_connected healthy_server init_client idle_world
     = (Inr (), connected_client, connected_world 0) \<and>
   session connected_client = Some 0 \<and>
   call_tool healthy_server (calls_made (connected_world 0)) ''prometheus_query''
     [(''query'', ''up''), (''step'', ''15s'')] = Call_content (Some ''42'') \<and>
   invoke_tool healthy_server ''prometheus_query'' [(''query'', ''up''), (''step'', ''15s'')]
       init_client Map.empty idle_world =
     (Inr (Content (Some ''42'')), connected_client,
      cache_set Map.empty ''prometheus_query'' [(''query'', ''up''), (''step'', ''15s'')] (Some ''42''),
      connected_world 1) \<and>
   invoke_tool refusing_server ''prometheus_query'' [(''step'', ''15s''), (''query'', ''up'')]
       connected_client
       (cache_set Map.empty ''prometheus_query'' [(''query'', ''up''), (''step'', ''15s'')] (Some ''42''))
       (connected_world 1) =
     (Inr (Content (Some ''42'')), connected_client,
      cache_set Map.empty ''prometheus_query'' [(''query'', ''up''), (''step'', ''15s'')] (Some ''42''),
      connected_world 1) \<and>
   cache_get (Map.empty :: (string, string) cache) ''prometheus_query'' [(''query'', ''up'')] = None \<and>
   call_tool crashing_tool_server 0 ''prometheus_query'' [(''query'', ''up'')]
     = Call_raises (Exc ''McpError'' ''tool crashed'' None) \<and>
   is_Exception (Exc ''McpError'' ''tool crashed'' None) \<and>
   invoke_tool crashing_tool_server ''prometheus_query'' [(''query'', ''up'')]
       init_client Map.empty idle_world =
     (Inl (Exc ''Exception''
             (''Failed to invoke tool '' @ [CHR 0x27] @ ''prometheus_query'' @ [CHR 0x27] @
              '': tool crashed'')
             (Some (Exc ''McpError'' ''tool crashed'' None))),
      connected_client, Map.empty, connected_world 1)"
proof -
  let ?a1 = "[(''query'', ''up''), (''step'', ''15s'')]"
  let ?a2 = "[(''step'', ''15s''), (''query'', ''up'')]"
  let ?cache1 = "cache_set (Map.empty :: (string, string) cache) ''prometheus_query'' ?a1 (Some ''42'')"
  have m: "map_of ?a1 = map_of ?a2"
    by (rule ext) simp
  have miss: "cache_get (Map.empty :: (string, string) cache) ''prometheus_query'' args = None" for args
    by (simp add: cache_get_def)
  have e1: "ensure_connected healthy_server init_client idle_world
              = (Inr (), connected_client, connected_world 0)"
    by (simp add: ensure_connected_fresh healthy_server_def)
  have s: "session connected_client = Some 0"
    by (simp add: connected_client_def)
  have r1: "call_tool healthy_server (calls_made (connected_world 0)) ''prometheus_query'' ?a1
      = Call_content (Some ''42'')"
    by (simp add: healthy_server_def)
  note t1 = invoke_tool_cache [where srv = healthy_server and name = "''prometheus_query''"
      and args = ?a1 and c = init_client and cache = Map.empty
      and w = idle_world and ?c2.0 = connected_client and ?w2.0 = "connected_world 0"
      and s = 0 and v' = "''42''"]
  have "invoke_tool healthy_server ''prometheus_query'' ?a1 init_client Map.empty idle_world
      = (Inr (Content (Some ''42'')), connected_client, ?cache1,
         (connected_world 0)\<lparr>calls_made := Suc (calls_made (connected_world 0))\<rparr>)"
    using t1 miss e1 s r1 by blast
  then have first: "invoke_tool healthy_server ''prometheus_query'' ?a1 init_client Map.empty idle_world
      = (Inr (Content (Some ''42'')), connected_client, ?cache1, connected_world 1)"
    by (simp add: connected_world_def)
  note t = invoke_tool_cache [where ?args1.0 = ?a1 and ?args2.0 = ?a2 and srv = healthy_server
      and name = "''prometheus_query''" and c = init_client and cache = Map.empty
      and w = idle_world and v = "''42''" and ?c1.0 = connected_client and ?cache1.0 = ?cache1
      and ?w1.0 = "connected_world 1" and srv' = refusing_server]
  have second: "invoke_tool refusing_server ''prometheus_query'' ?a2 connected_client ?cache1
      (connected_world 1) = (Inr (Content (Some ''42'')), connected_client, ?cache1, connected_world 1)"
    using t m first by blast
  have e2: "ensure_connected crashing_tool_server init_client idle_world
              = (Inr (), connected_client, connected_world 0)"
    by (simp add: ensure_connected_fresh crashing_tool_server_def)
  have r: "call_tool crashing_tool_server (calls_made (connected_world 0)) ''prometheus_query''
             [(''query'', ''up'')] = Call_raises (Exc ''McpError'' ''tool crashed'' None)"
    by (simp add: crashing_tool_server_def)
  have x: "is_Exception (Exc ''McpError'' ''tool crashed'' None)"
    by (simp add: is_Exception_def)
  note t' = invoke_tool_cache [where srv = crashing_tool_server and name = "''prometheus_query''"
      and args = "[(''query'', ''up'')]" and c = init_client and cache = Map.empty
      and w = idle_world and ?c2.0 = connected_client and ?w2.0 = "connected_world 0"
      and s = 0 and e = "Exc ''McpError'' ''tool crashed'' None"]
  have "invoke_tool crashing_tool_server ''prometheus_query'' [(''query'', ''up'')]
       init_client Map.empty idle_world =
     (Inl (Exc ''Exception''
             (''Failed to invoke tool '' @ [CHR 0x27] @ ''prometheus_query'' @ [CHR 0x27] @ '': '' @
              exc_msg (Exc ''McpError'' ''tool crashed'' None))
             (Some (Exc ''McpError'' ''tool crashed'' None))),
      connected_client, Map.empty,
      (connected_world 0)\<lparr>calls_made := Suc (calls_made (connected_world 0))\<rparr>)"
    using t' miss e2 s r x by blast
  then have third: "invoke_tool crashing_tool_server ''prometheus_query'' [(''query'', ''up'')]
       init_client Map.empty idle_world =
     (Inl (Exc ''Exception''
             (''Failed to invoke tool '' @ [CHR 0x27] @ ''prometheus_query'' @ [CHR 0x27] @
              '': tool crashed'')
             (Some (Exc ''McpError'' ''tool crashed'' None))),
      connected_client, Map.empty, connected_world 1)"
    by (simp add: connected_world_def)
  have r': "call_tool crashing_tool_server 0 ''prometheus_query'' [(''query'', ''up'')]
     = Call_raises (Exc ''McpError'' ''tool crashed'' None)"
    by (simp add: crashing_tool_server_def)
  from m miss [of ?a1] e1 s r1 first second miss [of "[(''query'', ''up'')]"] r' x third
  show ?thesis
    by (intro conjI)
qed

section \<open>Listing the tickets\<close>

lemma create_result:
  assumes "create_servicenow_ticket fmt n1 n2 dir a investigation sev = Inr (t, dir')"
  shows "ticket_number t = ''INC'' @ strftime_compact n1"
    and "dir' = write_text (write_text dir (json_name t) (Json_text (Ticket t)))
                  (txt_name t) (Plain_text (format_ticket_text fmt t))"
  using assms
  by (auto simp: create_servicenow_ticket_def Let_def json_name_def txt_name_def split: sum.splits)

lemma map_of_write_text: "map_of (write_text dir k v) = (map_of dir)(k \<mapsto> v)"
  by (simp add: write_text_def update_conv')

lemma keys_write_text: "fst ` set (write_text dir k v) = insert k (fst ` set dir)"
  by (simp add: write_text_def dom_update)

lemma distinct_write_text: "distinct (map fst dir) \<Longrightarrow> distinct (map fst (write_text dir k v))"
  by (simp add: write_text_def distinct_update)

lemma endswith_last: "endswith s p \<Longrightarrow> p \<noteq> [] \<Longrightarrow> last s = last p"
  by (metis endswith_def append_take_drop_id last_appendR)

lemma json_name_is_json: "endswith (json_name t) ''.json''"
  by (simp add: endswith_def json_name_def)

lemma txt_name_not_json: "\<not> endswith (txt_name t) ''.json''"
proof
  assume "endswith (txt_name t) ''.json''"
  then have "last (txt_name t) = last ''.json''"
    by (rule endswith_last) simp
  then show False
    by (simp add: txt_name_def)
qed

lemma json_txt_distinct: "json_name t \<noteq> txt_name u"
  using json_name_is_json [of t] txt_name_not_json [of u] by auto

lemma json_name_inj: "json_name t = json_name u \<longleftrightarrow> ticket_number t = ticket_number u"
  by (simp add: json_name_def)

lemma txt_name_inj: "txt_name t = txt_name u \<longleftrightarrow> ticket_number t = ticket_number u"
  by (simp add: txt_name_def)

lemma create_tickets_cons:
  obtains t dir1 ts dir2 where
    "create_servicenow_ticket fmt (req_now_number r) (req_now_created r) dir
       (req_alert r) (req_investigation r) (req_severity r) = Inr (t, dir1)"
    "create_tickets fmt rs dir1 = (ts, dir2)"
    "create_tickets fmt (r # rs) dir = (t # ts, dir2)"
proof -
  obtain t dir1 where c: "create_servicenow_ticket fmt (req_now_number r) (req_now_created r) dir
       (req_alert r) (req_investigation r) (req_severity r) = Inr (t, dir1)"
    using create_servicenow_ticket_total by blast
  obtain ts dir2 where r: "create_tickets fmt rs dir1 = (ts, dir2)"
    by (cases "create_tickets fmt rs dir1") auto
  from c r have "create_tickets fmt (r # rs) dir = (t # ts, dir2)"
    by simp
  with c r show thesis
    by (rule that)
qed

lemma create_tickets_numbers:
  "create_tickets fmt reqs dir0 = (ts, dir) \<Longrightarrow>
   map ticket_number ts = map (\<lambda>r. ''INC'' @ strftime_compact (req_now_number r)) reqs"
proof (induction reqs arbitrary: dir0 ts dir)
  case Nil
  then show ?case by simp
next
  case (Cons r rs)
  obtain t dir1 ts' dir2 where
    c: "create_servicenow_ticket fmt (req_now_number r) (req_now_created r) dir0
       (req_alert r) (req_investigation r) (req_severity r) = Inr (t, dir1)"
    and r: "create_tickets fmt rs dir1 = (ts', dir2)"
    and a: "create_tickets fmt (r # rs) dir0 = (t # ts', dir2)"
    by (rule create_tickets_cons)
  from a Cons.prems have "ts = t # ts'" by simp
  with Cons.IH [OF r] create_result(1) [OF c] show ?case by simp
qed

lemma create_tickets_keys:
  "create_tickets fmt reqs dir0 = (ts, dir) \<Longrightarrow>
   fst ` set dir = fst ` set dir0 \<union> json_name ` set ts \<union> txt_name ` set ts"
proof (induction reqs arbitrary: dir0 ts dir)
  case Nil
  then show ?case by simp
next
  case (Cons r rs)
  obtain t dir1 ts' dir2 where
    c: "create_servicenow_ticket fmt (req_now_number r) (req_now_created r) dir0
       (req_alert r) (req_investigation r) (req_severity r) = Inr (t, dir1)"
    and r: "create_tickets fmt rs dir1 = (ts', dir2)"
    and a: "create_tickets fmt (r # rs) dir0 = (t # ts', dir2)"
    by (rule create_tickets_cons)
  from a Cons.prems have e: "ts = t # ts'" "dir = dir2" by simp_all
  have "fst ` set dir1 = insert (txt_name t) (insert (json_name t) (fst ` set dir0))"
    by (simp add: create_result(2) [OF c] keys_write_text)
  with Cons.IH [OF r] e show ?case by auto
qed

lemma create_tickets_distinct:
  "create_tickets fmt reqs dir0 = (ts, dir) \<Longrightarrow> distinct (map fst dir0) \<Longrightarrow>
   distinct (map fst dir)"
proof (induction reqs arbitrary: dir0 ts dir)
  case Nil
  then show ?case by simp
next
  case (Cons r rs)
  obtain t dir1 ts' dir2 where
    c: "create_servicenow_ticket fmt (req_now_number r) (req_now_created r) dir0
       (req_alert r) (req_investigation r) (req_severity r) = Inr (t, dir1)"
    and r: "create_tickets fmt rs dir1 = (ts', dir2)"
    and a: "create_tickets fmt (r # rs) dir0 = (t # ts', dir2)"
    by (rule create_tickets_cons)
  from a Cons.prems have e: "ts = t # ts'" "dir = dir2" by simp_all
  have "distinct (map fst dir1)"
    using Cons.prems(2) by (simp add: create_result(2) [OF c] distinct_write_text)
  with Cons.IH [OF r] e show ?case by simp
qed

lemma create_tickets_frame:
  "create_tickets fmt reqs dir0 = (ts, dir) \<Longrightarrow>
   k \<notin> json_name ` set ts \<Longrightarrow> k \<notin> txt_name ` set ts \<Longrightarrow> map_of dir k = map_of dir0 k"
proof (induction reqs arbitrary: dir0 ts dir)
  case Nil
  then show ?case by simp
next
  case (Cons r rs)
  obtain t dir1 ts' dir2 where
    c: "create_servicenow_ticket fmt (req_now_number r) (req_now_created r) dir0
       (req_alert r) (req_investigation r) (req_severity r) = Inr (t, dir1)"
    and r: "create_tickets fmt rs dir1 = (ts', dir2)"
    and a: "create_tickets fmt (r # rs) dir0 = (t # ts', dir2)"
    by (rule create_tickets_cons)
  from a Cons.prems have e: "ts = t # ts'" "dir = dir2" by simp_all
  with Cons.prems have k: "k \<noteq> json_name t" "k \<noteq> txt_name t"
    "k \<notin> json_name ` set ts'" "k \<notin> txt_name ` set ts'"
    by auto
  have "map_of dir1 k = map_of dir0 k"
    using k(1,2) by (simp add: create_result(2) [OF c] map_of_write_text)
  with Cons.IH [OF r k(3,4)] e show ?case by simp
qed

lemma create_tickets_lookup:
  "create_tickets fmt reqs dir0 = (ts, dir) \<Longrightarrow> distinct (map ticket_number ts) \<Longrightarrow>
   t \<in> set ts \<Longrightarrow> map_of dir (json_name t) = Some (Json_text (Ticket t))"
proof (induction reqs arbitrary: dir0 ts dir)
  case Nil
  then show ?case by simp
next
  case (Cons r rs)
  obtain t0 dir1 ts' dir2 where
    c: "create_servicenow_ticket fmt (req_now_number r) (req_now_created r) dir0
       (req_alert r) (req_investigation r) (req_severity r) = Inr (t0, dir1)"
    and r: "create_tickets fmt rs dir1 = (ts', dir2)"
    and a: "create_tickets fmt (r # rs) dir0 = (t0 # ts', dir2)"
    by (rule create_tickets_cons)
  from a Cons.prems have e: "ts = t0 # ts'" "dir = dir2" by simp_all
  show ?case
  proof (cases "t \<in> set ts'")
    case True
    with Cons.IH [OF r] Cons.prems(2) e show ?thesis by simp
  next
    case False
    with Cons.prems(3) e have t: "t = t0" by simp
    from Cons.prems(2) e have "ticket_number t0 \<notin> ticket_number ` set ts'"
      by simp
    then have "json_name t0 \<notin> json_name ` set ts'"
      by (auto simp: json_name_inj)
    moreover have "json_name t0 \<notin> txt_name ` set ts'"
      by (auto simp: json_txt_distinct)
    ultimately have "map_of dir2 (json_name t0) = map_of dir1 (json_name t0)"
      by (rule create_tickets_frame [OF r])
    also have "\<dots> = Some (Json_text (Ticket t0))"
      by (simp add: create_result(2) [OF c] map_of_write_text json_txt_distinct)
    finally show ?thesis
      using t e by simp
  qed
qed

lemma digit_char_0: "digit_char 0 = CHR ''0''"
  by (simp add: digit_char_def)

lemma of_char_digit: "(of_char (digit_char n) :: nat) = 48 + n mod 10"
proof -
  define k where "k = n mod 10"
  then have "k < 10"
    by simp
  then have "k \<in> {0, 1, 2, 3, 4, 5, 6, 7, 8, 9}"
    by auto
  then have "(of_char (''0123456789'' ! k) :: nat) = 48 + k"
    by auto
  then show ?thesis
    by (simp add: digit_char_def k_def)
qed

lemma digit_char_less: "digit_char a < digit_char b \<longleftrightarrow> a mod 10 < b mod 10"
  by (simp add: less_char_def of_char_digit)

lemma digit_char_eq: "digit_char a = digit_char b \<longleftrightarrow> a mod 10 = b mod 10"
proof -
  have "digit_char a = digit_char b \<longleftrightarrow>
        (of_char (digit_char a) :: nat) = of_char (digit_char b)"
    by simp
  then show ?thesis
    by (simp only: of_char_digit) simp
qed

lemma str_nat_1: "n < 10 \<Longrightarrow> str_nat n = [digit_char n]"
  by (simp add: str_nat.simps)

lemma str_nat_2: "10 \<le> n \<Longrightarrow> n < 100 \<Longrightarrow> str_nat n = [digit_char (n div 10), digit_char n]"
  by (subst str_nat.simps) (simp add: str_nat_1)

lemma str_nat_3:
  "100 \<le> n \<Longrightarrow> n < 1000 \<Longrightarrow>
   str_nat n = [digit_char (n div 100), digit_char (n div 10), digit_char n]"
  by (subst str_nat.simps) (simp add: str_nat_2 div_mult2_eq [symmetric])

lemma str_nat_4:
  "1000 \<le> n \<Longrightarrow> n < 10000 \<Longrightarrow>
   str_nat n = [digit_char (n div 1000), digit_char (n div 100), digit_char (n div 10), digit_char n]"
  by (subst str_nat.simps) (simp add: str_nat_3 div_mult2_eq [symmetric])

lemma zero_pad_2: "n < 100 \<Longrightarrow> zero_pad 2 n = [digit_char (n div 10), digit_char n]"
proof (cases "n < 10")
  case True
  then have "n div 10 = 0" by simp
  with True show ?thesis
    by (simp add: zero_pad_def str_nat_1 digit_char_0)
next
  case False
  assume "n < 100"
  with False show ?thesis
    by (simp add: zero_pad_def str_nat_2)
qed

lemma zero_pad_4:
  "1000 \<le> n \<Longrightarrow> n < 10000 \<Longrightarrow>
   zero_pad 4 n = [digit_char (n div 1000), digit_char (n div 100), digit_char (n div 10), digit_char n]"
  by (simp add: zero_pad_def str_nat_4)

lemma lex_digits:
  fixes x y x' y' :: nat
  assumes "y < 10" and "y' < 10"
  shows "10 * x + y < 10 * x' + y' \<longleftrightarrow> x < x' \<or> x = x' \<and> y < y'"
  using assms by linarith

lemma split_last_digit:
  "a < b \<longleftrightarrow> a div 10 < b div 10 \<or> a div 10 = b div 10 \<and> a mod 10 < (b :: nat) mod 10"
  "a = b \<longleftrightarrow> a div 10 = b div 10 \<and> a mod 10 = (b :: nat) mod 10"
proof -
  have a: "a = 10 * (a div 10) + a mod 10" and b: "b = 10 * (b div 10) + b mod 10"
    by simp_all
  have m: "a mod 10 < 10" "b mod 10 < 10"
    by simp_all
  show "a < b \<longleftrightarrow> a div 10 < b div 10 \<or> a div 10 = b div 10 \<and> a mod 10 < b mod 10"
    using lex_digits [OF m, of "a div 10" "b div 10"] a b by presburger
  show "a = b \<longleftrightarrow> a div 10 = b div 10 \<and> a mod 10 = b mod 10"
    by (metis div_mult_mod_eq)
qed

lemma zero_pad_2_less:
  assumes "a < 100" and "b < 100"
  shows "zero_pad 2 a < zero_pad 2 b \<longleftrightarrow> a < b"
proof -
  from assms have "a div 10 mod 10 = a div 10" "b div 10 mod 10 = b div 10"
    by simp_all
  then have "zero_pad 2 a < zero_pad 2 b \<longleftrightarrow>
      a div 10 < b div 10 \<or> a div 10 = b div 10 \<and> a mod 10 < b mod 10"
    by (simp add: zero_pad_2 assms digit_char_less digit_char_eq)
  then show ?thesis
    by (simp only: split_last_digit(1) [of a b])
qed

lemma zero_pad_2_eq:
  assumes "a < 100" and "b < 100"
  shows "zero_pad 2 a = zero_pad 2 b \<longleftrightarrow> a = b"
proof -
  from assms have "a div 10 mod 10 = a div 10" "b div 10 mod 10 = b div 10"
    by simp_all
  then have "zero_pad 2 a = zero_pad 2 b \<longleftrightarrow>
      a div 10 = b div 10 \<and> a mod 10 = b mod 10"
    by (simp add: zero_pad_2 assms digit_char_eq)
  then show ?thesis
    by (simp only: split_last_digit(2) [of a b])
qed

lemma four_digits:
  fixes a b :: nat
  assumes "a < 10000" and "b < 10000"
  shows "a < b \<longleftrightarrow>
           a div 1000 mod 10 < b div 1000 mod 10 \<or>
           a div 1000 mod 10 = b div 1000 mod 10 \<and>
           (a div 100 mod 10 < b div 100 mod 10 \<or>
            a div 100 mod 10 = b div 100 mod 10 \<and>
            (a div 10 mod 10 < b div 10 mod 10 \<or>
             a div 10 mod 10 = b div 10 mod 10 \<and> a mod 10 < b mod 10))"
    and "a = b \<longleftrightarrow>
           a div 1000 mod 10 = b div 1000 mod 10 \<and> a div 100 mod 10 = b div 100 mod 10 \<and>
           a div 10 mod 10 = b div 10 mod 10 \<and> a mod 10 = b mod 10"
proof -
  have d: "a div 10 div 10 = a div 100" "b div 10 div 10 = b div 100"
    "a div 100 div 10 = a div 1000" "b div 100 div 10 = b div 1000"
    by (simp_all add: div_mult2_eq [symmetric])
  from assms have t: "a div 1000 mod 10 = a div 1000" "b div 1000 mod 10 = b div 1000"
    by simp_all
  note s0 = split_last_digit [of a b]
  note s1 = split_last_digit [of "a div 10" "b div 10", unfolded d]
  note s2 = split_last_digit [of "a div 100" "b div 100", unfolded d]
  show "a < b \<longleftrightarrow>
           a div 1000 mod 10 < b div 1000 mod 10 \<or>
           a div 1000 mod 10 = b div 1000 mod 10 \<and>
           (a div 100 mod 10 < b div 100 mod 10 \<or>
            a div 100 mod 10 = b div 100 mod 10 \<and>
            (a div 10 mod 10 < b div 10 mod 10 \<or>
             a div 10 mod 10 = b div 10 mod 10 \<and> a mod 10 < b mod 10))"
    unfolding t using s0 s1 s2 by blast
  show "a = b \<longleftrightarrow>
           a div 1000 mod 10 = b div 1000 mod 10 \<and> a div 100 mod 10 = b div 100 mod 10 \<and>
           a div 10 mod 10 = b div 10 mod 10 \<and> a mod 10 = b mod 10"
    unfolding t using s0 s1 s2 by blast
qed

lemma zero_pad_4_less:
  assumes "1000 \<le> a" "a < 10000" "1000 \<le> b" "b < 10000"
  shows "zero_pad 4 a < zero_pad 4 b \<longleftrightarrow> a < b"
  by (simp add: zero_pad_4 assms digit_char_less digit_char_eq four_digits(1) [OF assms(2,4)])

lemma zero_pad_4_eq:
  assumes "1000 \<le> a" "a < 10000" "1000 \<le> b" "b < 10000"
  shows "zero_pad 4 a = zero_pad 4 b \<longleftrightarrow> a = b"
  by (simp add: zero_pad_4 assms digit_char_eq four_digits(2) [OF assms(2,4)])

lemma block_less:
  fixes x y :: "'a :: linorder list"
  shows "length x = length y \<Longrightarrow> x @ r < y @ r' \<longleftrightarrow> x < y \<or> x = y \<and> r < r'"
  by (induction x y rule: list_induct2) auto

lemma length_zero_pad_2: "n < 100 \<Longrightarrow> length (zero_pad 2 n) = 2"
  by (simp add: zero_pad_2)

lemma length_zero_pad_4: "1000 \<le> n \<Longrightarrow> n < 10000 \<Longrightarrow> length (zero_pad 4 n) = 4"
  by (simp add: zero_pad_4)

lemma valid_datetime_bounds:
  assumes "valid_datetime t"
  shows "1000 \<le> year t" "year t < 10000" "month t < 100" "day t < 100" "hour t < 100"
    "minute t < 100" "second t < 100"
  using assms by (simp_all add: valid_datetime_def)

lemma length_strftime_compact: "valid_datetime t \<Longrightarrow> length (strftime_compact t) = 14"
  by (simp add: strftime_compact_def valid_datetime_bounds length_zero_pad_2 length_zero_pad_4)

lemma strftime_compact_less:
  assumes "valid_datetime a" and "valid_datetime b"
  shows "strftime_compact a < strftime_compact b \<longleftrightarrow> earlier a b"
proof -
  note ba = valid_datetime_bounds [OF assms(1)]
  note bb = valid_datetime_bounds [OF assms(2)]
  have l4: "length (zero_pad 4 (year a)) = length (zero_pad 4 (year b))"
    by (simp add: length_zero_pad_4 ba bb)
  have l2: "length (zero_pad 2 (month a)) = length (zero_pad 2 (month b))"
    "length (zero_pad 2 (day a)) = length (zero_pad 2 (day b))"
    "length (zero_pad 2 (hour a)) = length (zero_pad 2 (hour b))"
    "length (zero_pad 2 (minute a)) = length (zero_pad 2 (minute b))"
    by (simp_all add: length_zero_pad_2 ba bb)
  show ?thesis
    unfolding strftime_compact_def earlier_def
    by (simp add: block_less [OF l4] block_less [OF l2(1)] block_less [OF l2(2)]
          block_less [OF l2(3)] block_less [OF l2(4)]
          zero_pad_4_less zero_pad_4_eq zero_pad_2_less zero_pad_2_eq ba bb)
qed

lemma less_append_prefix: "p @ a < p @ b \<longleftrightarrow> a < (b :: string)"
  by (induction p) simp_all

lemma less_append_suffix: "length a = length b \<Longrightarrow> a < b \<Longrightarrow> a @ c < b @ (c :: string)"
  by (induction a b rule: list_induct2) auto

lemma json_names_sorted:
  assumes "sorted_wrt (<) stamps" and "\<forall>s\<in>set stamps. length s = 14"
  shows "sorted_wrt (<) (map (\<lambda>s. (''INC'' @ s) @ ''.json'') stamps)"
proof -
  have "(''INC'' @ x) @ ''.json'' < (''INC'' @ y) @ ''.json''"
    if "x \<in> set stamps" "y \<in> set stamps" "x < y" for x y
  proof -
    from that assms(2) have "length x = length y" by simp
    from this that(3) have "x @ ''.json'' < y @ ''.json''"
      by (rule less_append_suffix)
    then have "''INC'' @ x @ ''.json'' < ''INC'' @ y @ ''.json''"
      by (simp only: less_append_prefix)
    then show ?thesis by simp
  qed
  with assms(1) show ?thesis
    unfolding sorted_wrt_map by (rule_tac sorted_wrt_mono_rel) auto
qed

lemma read_tickets_map:
  "(\<And>t. t \<in> set ts \<Longrightarrow> map_of dir (json_name t) = Some (Json_text (Ticket t))) \<Longrightarrow>
   read_tickets dir (map json_name ts) = map Ticket ts"
  by (induction ts) simp_all

lemma list_tickets_default: "list_tickets None dir = list_tickets (Some 50) dir"
  by (simp add: list_tickets_def)

lemma created_listing:
  assumes inc: "sorted_wrt (<) (map (\<lambda>r. strftime_compact (req_now_number r)) reqs)"
    and len: "\<forall>r\<in>set reqs. length (strftime_compact (req_now_number r)) = 14"
    and made: "create_tickets fmt reqs [] = (ts, dir)"
  shows "sort (glob_json dir) = map json_name ts"
    and "\<And>t. t \<in> set ts \<Longrightarrow> map_of dir (json_name t) = Some (Json_text (Ticket t))"
    and "length ts = length reqs"
proof -
  let ?stamps = "map (\<lambda>r. strftime_compact (req_now_number r)) reqs"
  have nums: "map ticket_number ts = map (\<lambda>s. ''INC'' @ s) ?stamps"
    using create_tickets_numbers [OF made] by (simp add: comp_def)
  then show "length ts = length reqs"
    using length_map by metis
  have names: "map json_name ts = map (\<lambda>s. (''INC'' @ s) @ ''.json'') ?stamps"
  proof -
    have "map json_name ts = map (\<lambda>n. n @ ''.json'') (map ticket_number ts)"
      by (simp add: json_name_def comp_def)
    also have "\<dots> = map (\<lambda>s. (''INC'' @ s) @ ''.json'') ?stamps"
      by (simp only: nums map_map comp_def)
    finally show ?thesis .
  qed
  have "sorted_wrt (<) (map (\<lambda>s. (''INC'' @ s) @ ''.json'') ?stamps)"
    using inc len by (intro json_names_sorted) auto
  then have strict: "sorted_wrt (<) (map json_name ts)"
    by (simp only: names)
  then have sd: "sorted (map json_name ts)" "distinct (map json_name ts)"
    by (simp_all add: strict_sorted_iff)
  from sd(2) have dn: "distinct (map ticket_number ts)"
    by (simp add: distinct_map inj_on_def json_name_inj)
  from create_tickets_lookup [OF made dn]
  show "\<And>t. t \<in> set ts \<Longrightarrow> map_of dir (json_name t) = Some (Json_text (Ticket t))" .
  have keys: "fst ` set dir = json_name ` set ts \<union> txt_name ` set ts"
    using create_tickets_keys [OF made] by simp
  have "set (glob_json dir) = json_name ` set ts"
    using keys by (auto simp: glob_json_def json_name_is_json txt_name_not_json)
  moreover have "distinct (glob_json dir)"
    using create_tickets_distinct [OF made] by (simp add: glob_json_def)
  ultimately show "sort (glob_json dir) = map json_name ts"
    using sd by (intro sorted_distinct_set_unique) simp_all
qed

lemma example_stamps:
  "strftime_compact (example_time\<lparr>second := 7\<rparr>) = ''20240309140507''"
  "strftime_compact (example_time\<lparr>second := 8\<rparr>) = ''20240309140508''"
  "strftime_compact (example_time\<lparr>second := 9\<rparr>) = ''20240309140509''"
  by (simp_all add: strftime_compact_def example_time_def zero_pad_2 zero_pad_4 digit_char_def)

lemma upper_critical: "upper ''critical'' = ''CRITICAL''"
  by code_simp

lemma create_example:
  "create_servicenow_ticket example_formatters (req_now_number (example_request sec))
     (req_now_created (example_request sec)) dir (req_alert (example_request sec))
     (req_investigation (example_request sec)) (req_severity (example_request sec)) =
   Inr (example_ticket sec,
        write_text
          (write_text dir (''INC'' @ strftime_compact (example_time\<lparr>second := sec\<rparr>) @ ''.json'')
            (Json_text (Ticket (example_ticket sec))))
          (''INC'' @ strftime_compact (example_time\<lparr>second := sec\<rparr>) @ ''.txt'')
          (Plain_text (''INC'' @ strftime_compact (example_time\<lparr>second := sec\<rparr>))))"
  by (simp add: create_servicenow_ticket_def severity_priority_cases Let_def example_request_def
        example_formatters_def example_investigation_def upper_critical example_ticket_def)

lemma create_same_second:
  "create_tickets example_formatters [example_request 7, example_request 7, example_request 7] [] =
     ([example_ticket 7, example_ticket 7, example_ticket 7],
      [(''INC20240309140507.json'', Json_text (Ticket (example_ticket 7))),
       (''INC20240309140507.txt'', Plain_text ''INC20240309140507'')])"
  by (simp add: create_example example_stamps write_text_def)

lemma create_three_seconds:
  "create_tickets example_formatters [example_request 7, example_request 8, example_request 9] [] =
     ([example_ticket 7, example_ticket 8, example_ticket 9],
      [(''INC20240309140507.json'', Json_text (Ticket (example_ticket 7))),
       (''INC20240309140507.txt'', Plain_text ''INC20240309140507''),
       (''INC20240309140508.json'', Json_text (Ticket (example_ticket 8))),
       (''INC20240309140508.txt'', Plain_text ''INC20240309140508''),
       (''INC20240309140509.json'', Json_text (Ticket (example_ticket 9))),
       (''INC20240309140509.txt'', Plain_text ''INC20240309140509'')])"
  by (simp add: create_example example_stamps write_text_def)

text \<open>
  Claim C8, as the program has it. The ticket number is the time of creation to the
  second, and the listing is ordered by file name. When the tickets in the directory were
  created one after the other, each at a later second than the one before (in the years
  1000 to 9999), and the limit is not negative, \<open>list_tickets\<close> returns the most
  recently created tickets, newest first, truncated to the limit, with their count;
  without a limit the limit is 50.
\<close>

theorem list_tickets_newest_first:
  assumes "sorted_wrt earlier (map req_now_number reqs)"
    and "\<forall>r\<in>set reqs. valid_datetime (req_now_number r)"
    and "0 \<le> limit"
  shows "list_tickets (Some limit) (snd (create_tickets fmt reqs [])) =
           (min (length reqs) (nat limit),
            map Ticket (take (nat limit) (rev (fst (create_tickets fmt reqs []))))) \<and>
         list_tickets None (snd (create_tickets fmt reqs [])) =
           list_tickets (Some 50) (snd (create_tickets fmt reqs []))"
proof -
  have "sorted_wrt (\<lambda>x y. earlier (req_now_number x) (req_now_number y)) reqs"
    using assms(1) by (simp add: sorted_wrt_map)
  then have
    "sorted_wrt (\<lambda>x y. strftime_compact (req_now_number x) < strftime_compact (req_now_number y))
       reqs"
    by (rule sorted_wrt_mono_rel [rotated]) (simp add: strftime_compact_less assms(2))
  then have inc: "sorted_wrt (<) (map (\<lambda>r. strftime_compact (req_now_number r)) reqs)"
    by (simp add: sorted_wrt_map)
  have len: "\<forall>r\<in>set reqs. length (strftime_compact (req_now_number r)) = 14"
    using assms(2) by (simp add: length_strftime_compact)
  obtain ts dir where made: "create_tickets fmt reqs [] = (ts, dir)"
    by (cases "create_tickets fmt reqs []") auto
  note l = created_listing [OF inc len made]
  have "slice_to (rev (sort (glob_json dir))) limit = map json_name (take (nat limit) (rev ts))"
    using assms(3) by (simp add: slice_to_def l(1) rev_map take_map)
  moreover have "read_tickets dir (map json_name (take (nat limit) (rev ts)))
      = map Ticket (take (nat limit) (rev ts))"
  proof (rule read_tickets_map)
    fix t
    assume "t \<in> set (take (nat limit) (rev ts))"
    then have "t \<in> set ts"
      by (auto dest: in_set_takeD)
    then show "map_of dir (json_name t) = Some (Json_text (Ticket t))"
      by (rule l(2))
  qed
  ultimately have "list_tickets (Some limit) dir =
      (min (length reqs) (nat limit), map Ticket (take (nat limit) (rev ts)))"
    by (simp add: list_tickets_def l(3))
  then show ?thesis
    by (simp add: made list_tickets_default)
qed

theorem list_tickets_newest_first_witness:
  "sorted_wrt earlier
     (map req_now_number [example_request 7, example_request 8, example_request 9]) \<and>
   valid_datetime (req_now_number (example_request 7)) \<and>
   valid_datetime (req_now_number (example_request 8)) \<and>
   valid_datetime (req_now_number (example_request 9)) \<and>
   (0::int) \<le> 2 \<and>
   fst (create_tickets example_formatters
          [example_request 7, example_request 8, example_request 9] []) =
     [example_ticket 7, example_ticket 8, example_ticket 9] \<and>
   list_tickets (Some 2)
     (snd (create_tickets example_formatters
             [example_request 7, example_request 8, example_request 9] [])) =
     (2, [Ticket (example_ticket 9), Ticket (example_ticket 8)])"
proof -
  have inc: "sorted_wrt earlier
      (map req_now_number [example_request 7, example_request 8, example_request 9])"
    by (simp add: example_request_def example_time_def earlier_def)
  have val: "\<forall>r\<in>set [example_request 7, example_request 8, example_request 9].
      valid_datetime (req_now_number r)"
    by (simp add: example_request_def example_time_def valid_datetime_def)
  have r: "list_tickets (Some 2)
     (snd (create_tickets example_formatters
             [example_request 7, example_request 8, example_request 9] [])) =
     (2, [Ticket (example_ticket 9), Ticket (example_ticket 8)])"
    using list_tickets_newest_first [OF inc val, of 2 example_formatters]
    unfolding create_three_seconds by simp
  have v: "valid_datetime (req_now_number (example_request 7))"
    "valid_datetime (req_now_number (example_request 8))"
    "valid_datetime (req_now_number (example_request 9))"
    using val by simp_all
  have f: "fst (create_tickets example_formatters
          [example_request 7, example_request 8, example_request 9] []) =
     [example_ticket 7, example_ticket 8, example_ticket 9]"
    unfolding create_three_seconds by simp
  from inc v f r show ?thesis
    by (intro conjI) simp_all
qed

text \<open>
  Claim C8 as stated fails. Three tickets created within one second share one ticket
  number and one file, so listing with limit 2 returns a single ticket; and with a
  negative limit the listing is not truncated to the limit: limit -1 drops the oldest
  ticket only.
\<close>

theorem list_tickets_counterexample:
  "list_tickets (Some 2)
     (snd (create_tickets example_formatters
             [example_request 7, example_request 7, example_request 7] [])) =
     (1, [Ticket (example_ticket 7)]) \<and>
   list_tickets (Some (- 1))
     (snd (create_tickets example_formatters
             [example_request 7, example_request 8, example_request 9] [])) =
     (2, [Ticket (example_ticket 9), Ticket (example_ticket 8)])"
  unfolding create_same_second create_three_seconds
  by (simp add: list_tickets_def glob_json_def endswith_def slice_to_def)

end
